theory Spec2Isabelle
  imports Complex_Main "HOL-Library.Word" "HOL-Library.Log_Nat" "HOL-Library.Multiset"
begin

section \<open>Go values\<close>

text \<open>
  The three programs of the repository (\<^verbatim>\<open>src/cmd/main.go\<close>, \<^verbatim>\<open>src/unnamed/part_000\<close> and
  \<^verbatim>\<open>src/unnamed/part_001\<close>) are three iterations of one agent. Definitions that embed
  \<^verbatim>\<open>src/cmd/main.go\<close> end in \<open>_cmd\<close>, those of \<^verbatim>\<open>part_000\<close> (the variant with the
  process list) in \<open>_p0\<close>, those of \<^verbatim>\<open>part_001\<close> in \<open>_p1\<close>.

  A Go \<^verbatim>\<open>error\<close> value is opaque here. A run-time panic is kept apart from a returned
  error: a function either panics or returns.
\<close>

type_synonym uint64 = "64 word"
type_synonym int32 = "32 word"

datatype error = Error string

datatype runtime_error = NilPointerDereference | IndexOutOfRange | SliceBoundsOutOfRange

datatype 'a go = Panics runtime_error | Returns 'a

subsection \<open>float64\<close>

text \<open>
  A \<^verbatim>\<open>float64\<close> is an IEEE 754 binary64 value: a finite value (kept as the rational it
  denotes), an infinity or a NaN. Every arithmetic result is the exact result rounded to
  the nearest binary64 value, ties to the even significand (\<open>binary64\<close> below): 53
  significant bits, the smallest spacing \<open>2 powi - 1074\<close>. The sign of a zero is not
  represented; it would show only in a division by zero (the sources divide by the
  constants 10 and 100 only) and in the printed form of a zero.
\<close>

datatype float64 = Finite rat | PosInf | NegInf | NaN

definition round_ties_even :: "rat \<Rightarrow> int" where
  "round_ties_even q =
     (let f = \<lfloor>q\<rfloor>; d = q - of_int f
      in if d < 1 / 2 then f else if 1 / 2 < d then f + 1 else if even f then f else f + 1)"

text \<open>\<open>ilog2 q\<close> is the \<open>k\<close> with \<open>2 powi k \<le> q < 2 powi (k + 1)\<close>, for \<open>0 < q\<close>.\<close>

definition ilog2 :: "rat \<Rightarrow> int" where
  "ilog2 q = (if 1 \<le> q then bitlen \<lfloor>q\<rfloor> - 1 else - bitlen (\<lceil>1 / q\<rceil> - 1))"

definition binary64 :: "rat \<Rightarrow> rat" where
  "binary64 q =
     (if q = 0 then 0
      else let e = max (ilog2 \<bar>q\<bar> - 52) (- 1074)
           in sgn q * (of_int (round_ties_even (\<bar>q\<bar> / (2 powi e))) * (2 powi e)))"

definition max_float64 :: rat where
  "max_float64 = (2 ^ 53 - 1) * 2 ^ 971"

definition to_float64 :: "rat \<Rightarrow> float64" where
  "to_float64 q =
     (let r = binary64 q
      in if max_float64 < r then PosInf else if r < - max_float64 then NegInf else Finite r)"

fun fsign :: "float64 \<Rightarrow> rat" where
  "fsign (Finite a) = sgn a"
| "fsign PosInf = 1"
| "fsign NegInf = - 1"
| "fsign NaN = 0"

definition of_sign :: "rat \<Rightarrow> float64" where
  "of_sign s = (if s = 0 then NaN else if 0 < s then PosInf else NegInf)"

text \<open>\<open>x * y\<close> on \<^verbatim>\<open>float64\<close>.\<close>

fun fmul :: "float64 \<Rightarrow> float64 \<Rightarrow> float64" where
  "fmul (Finite a) (Finite b) = to_float64 (a * b)"
| "fmul x y = of_sign (fsign x * fsign y)"

text \<open>\<open>x / y\<close> on \<^verbatim>\<open>float64\<close>.\<close>

fun fdiv :: "float64 \<Rightarrow> float64 \<Rightarrow> float64" where
  "fdiv (Finite a) (Finite b) = (if b = 0 then of_sign (sgn a) else to_float64 (a / b))"
| "fdiv NaN y = NaN"
| "fdiv x NaN = NaN"
| "fdiv (Finite a) y = Finite 0"
| "fdiv x (Finite b) = of_sign (fsign x * (if b < 0 then - 1 else 1))"
| "fdiv x y = NaN"

text \<open>\<open>x > y\<close> on \<^verbatim>\<open>float64\<close>: false whenever an operand is a NaN.\<close>

fun fgt :: "float64 \<Rightarrow> float64 \<Rightarrow> bool" where
  "fgt NaN y = False"
| "fgt x NaN = False"
| "fgt (Finite a) (Finite b) = (b < a)"
| "fgt PosInf PosInf = False"
| "fgt PosInf y = True"
| "fgt x PosInf = False"
| "fgt NegInf y = False"
| "fgt x NegInf = True"

text \<open>
  \<^verbatim>\<open>math.Round\<close>: the nearest integer, halves away from zero; infinities and NaN are
  returned as they are. The result is exact (an integer of at most 53 bits, or the argument
  itself).
\<close>

definition round_half_away :: "rat \<Rightarrow> int" where
  "round_half_away q = (if 0 \<le> q then \<lfloor>q + 1 / 2\<rfloor> else - \<lfloor>- q + 1 / 2\<rfloor>)"

fun math_Round :: "float64 \<Rightarrow> float64" where
  "math_Round (Finite q) = Finite (of_int (round_half_away q))"
| "math_Round x = x"

subsection \<open>JSON values and \<^verbatim>\<open>json.Marshal\<close>\<close>

text \<open>
  The payload is kept as the JSON value that \<^verbatim>\<open>json.Marshal\<close> encodes, members in the
  order of the struct's fields and under the names of the struct tags. A number is the
  value of the Go number it was written from (the encoder prints a \<^verbatim>\<open>float64\<close> as the
  shortest decimal that reads back as the same \<^verbatim>\<open>float64\<close>). The encoder refuses a NaN
  and an infinity (\<^verbatim>\<open>UnsupportedValueError\<close>), and it writes a string with every byte
  that starts no well-formed UTF-8 sequence replaced by U+FFFD (bytes EF BF BD).
\<close>

datatype json =
    JNull
  | JString string
  | JNumber rat
  | JArray "json list"
  | JObject "(string \<times> json) list"

definition cont :: "char \<Rightarrow> bool" where
  "cont c = (128 \<le> (of_char c :: nat) \<and> (of_char c :: nat) \<le> 191)"

text \<open>
  \<open>rune_len s\<close>: the number of bytes of the well-formed UTF-8 sequence that starts \<open>s\<close>
  (what \<^verbatim>\<open>utf8.DecodeRuneInString\<close> returns as size for a rune other than an error), or
  0 when there is none.
\<close>

fun rune_len :: "string \<Rightarrow> nat" where
  "rune_len [] = 0"
| "rune_len (c # cs) =
     (let b = (of_char c :: nat) in
      if b < 128 then 1
      else if 194 \<le> b \<and> b \<le> 223 then
        (case cs of c1 # _ \<Rightarrow> if cont c1 then 2 else 0 | _ \<Rightarrow> 0)
      else if 224 \<le> b \<and> b \<le> 239 then
        (case cs of
           c1 # c2 # _ \<Rightarrow>
             if (if b = 224 then 160 else 128) \<le> (of_char c1 :: nat)
                \<and> (of_char c1 :: nat) \<le> (if b = 237 then 159 else 191) \<and> cont c2
             then 3 else 0
         | _ \<Rightarrow> 0)
      else if 240 \<le> b \<and> b \<le> 244 then
        (case cs of
           c1 # c2 # c3 # _ \<Rightarrow>
             if (if b = 240 then 144 else 128) \<le> (of_char c1 :: nat)
                \<and> (of_char c1 :: nat) \<le> (if b = 244 then 143 else 191) \<and> cont c2 \<and> cont c3
             then 4 else 0
         | _ \<Rightarrow> 0)
      else 0)"

definition replacement_char :: string where
  "replacement_char = [char_of (239 :: nat), char_of (191 :: nat), char_of (189 :: nat)]"

fun json_string :: "string \<Rightarrow> string" where
  "json_string [] = []"
| "json_string (c # cs) =
     (let n = rune_len (c # cs) in
      if n = 0 then replacement_char @ json_string cs
      else c # take (n - 1) cs @ json_string (drop (n - 1) cs))"

definition json_float64 :: "float64 \<Rightarrow> error + json" where
  "json_float64 x =
     (case x of
        Finite q \<Rightarrow> Inr (JNumber q)
      | PosInf \<Rightarrow> Inl (Error ''json: unsupported value: +Inf'')
      | NegInf \<Rightarrow> Inl (Error ''json: unsupported value: -Inf'')
      | NaN \<Rightarrow> Inl (Error ''json: unsupported value: NaN''))"

definition json_uint64 :: "uint64 \<Rightarrow> json" where
  "json_uint64 w = JNumber (of_nat (unat w))"

definition json_int32 :: "int32 \<Rightarrow> json" where
  "json_int32 w = JNumber (of_int (sint w))"

text \<open>The member of a JSON object under a name: the first one, \<open>None\<close> when there is none.\<close>

fun member :: "json \<Rightarrow> string \<Rightarrow> json option" where
  "member (JObject kvs) k = map_of kvs k"
| "member j k = None"

section \<open>The Metrics Source\<close>

text \<open>
  The answers of the gopsutil calls are inputs. \<open>sampling\<close> holds what the calls made
  during one call of \<^verbatim>\<open>collectMetrics\<close> return: \<^verbatim>\<open>cpu.Percent(1*time.Second, false)\<close>,
  \<^verbatim>\<open>mem.VirtualMemory()\<close>, \<^verbatim>\<open>disk.Usage("/")\<close>, \<^verbatim>\<open>time.Now().Format(time.RFC3339)\<close>
  and, in \<^verbatim>\<open>part_000\<close>, \<^verbatim>\<open>process.Processes()\<close> with, for each process, what its
  \<^verbatim>\<open>Name()\<close> and \<^verbatim>\<open>CPUPercent()\<close> return.
\<close>

record VirtualMemoryStat =
  mem_Total :: uint64
  mem_Used :: uint64

record UsageStat =
  disk_Total :: uint64
  disk_Used :: uint64

record Process =
  proc_Pid :: int32
  proc_Name :: "string \<times> error option"
  proc_CPUPercent :: "error + float64"

record sampling =
  cpu_Percent :: "error + float64 list"
  mem_VirtualMemory :: "error + VirtualMemoryStat"
  disk_Usage :: "error + UsageStat"
  time_Now :: string
  process_Processes :: "error + Process list"

section \<open>What the programs print, log and do\<close>

text \<open>
  The messages of the sources are Korean text; each is a constructor here, in the order of
  \<^verbatim>\<open>main\<close>: the \<^verbatim>\<open>.env\<close> file could not be loaded, \<^verbatim>\<open>SERVER_API_KEY\<close> is not in it,
  \<^verbatim>\<open>CONTAINERID\<close> is not in it, there is no tenant, the web socket connection failed,
  collecting the metrics failed, the transmission failed, the transmission is complete,
  and (in \<^verbatim>\<open>getCPUProcess\<close>) the process list could not be read.
\<close>

datatype message =
    EnvLoadFailed error
  | ServerApiKeyMissing
  | ContainerMissing
  | TenantMissing
  | WebSocketFailed error
  | CollectFailed error
  | SendFailed error
  | SendDone json
  | ProcessListFailed error

datatype event =
    Println message
  | Log message
  | Dial string "(string \<times> string) list"
  | CollectMetrics
  | WriteMessage json
  | Sleep nat
  | Close

text \<open>
  \<open>Println\<close> is \<^verbatim>\<open>fmt.Println\<close>, \<open>Log\<close> is \<^verbatim>\<open>log.Printf\<close> or \<^verbatim>\<open>log.Println\<close>,
  \<open>Dial url header\<close> the call of \<^verbatim>\<open>websocket.DefaultDialer.Dial\<close>, \<open>CollectMetrics\<close> the
  start of a sampling attempt, \<open>WriteMessage p\<close> the call of \<^verbatim>\<open>conn.WriteMessage\<close> with the
  text frame \<open>p\<close>, \<open>Sleep n\<close> is \<^verbatim>\<open>time.Sleep\<close> of \<open>n\<close> seconds and \<open>Close\<close> the deferred
  \<^verbatim>\<open>conn.Close()\<close>.
\<close>

section \<open>\<^verbatim>\<open>part_000\<close>: the process list\<close>

record ProcessInfo =
  Pid :: int32
  Name :: string
  CPUPercent :: float64

text \<open>
  A slice under construction is its elements and its capacity. \<^verbatim>\<open>append\<close> at full
  capacity allocates: the run time doubles the capacity below 256 elements (from 0 to 1)
  and adds a quarter of it plus 192 from there on; for the 32-byte \<^verbatim>\<open>ProcessInfo\<close> the
  allocator's size classes leave the doubled capacities as they are and may round the
  larger ones up, which no bounds check of the source can see.
\<close>

definition growslice :: "nat \<Rightarrow> nat" where
  "growslice c = (if c = 0 then 1 else if c < 256 then 2 * c else c + (c + 768) div 4)"

definition append_slice :: "'a list \<times> nat \<Rightarrow> 'a \<Rightarrow> 'a list \<times> nat" where
  "append_slice s x =
     (case s of (xs, c) \<Rightarrow> (xs @ [x], if length xs < c then c else growslice c))"

text \<open>The comparison function handed to \<^verbatim>\<open>sort.Slice\<close> (lines 164 to 166).\<close>

definition less_p0 :: "ProcessInfo \<Rightarrow> ProcessInfo \<Rightarrow> bool" where
  "less_p0 a b = fgt (CPUPercent a) (CPUPercent b)"

text \<open>The \<^verbatim>\<open>range\<close> loop of lines 150 to 161, from the slice built so far.\<close>

fun scan :: "Process list \<Rightarrow> ProcessInfo list \<times> nat \<Rightarrow> ProcessInfo list \<times> nat" where
  "scan [] processList = processList"
| "scan (p # ps) processList =
     (case proc_CPUPercent p of
        Inl err \<Rightarrow> scan ps processList
      | Inr cpuPercent \<Rightarrow>
          scan ps
            (append_slice processList
               \<lparr>Pid = proc_Pid p, Name = fst (proc_Name p),
                CPUPercent = fdiv (math_Round (fmul cpuPercent (Finite 100))) (Finite 100)\<rparr>))"

text \<open>
  \<^verbatim>\<open>getCPUProcess\<close>. \<^verbatim>\<open>sort.Slice\<close> is the parameter \<open>sort_Slice\<close>: it sorts in place, so
  the capacity stays. \<^verbatim>\<open>processList[:5]\<close> is checked against the capacity. The result
  \<open>None\<close> is the nil slice. The first component is what the call logs.
\<close>

definition getCPUProcess ::
  "((ProcessInfo \<Rightarrow> ProcessInfo \<Rightarrow> bool) \<Rightarrow> ProcessInfo list \<Rightarrow> ProcessInfo list)
   \<Rightarrow> error + Process list \<Rightarrow> event list \<times> ProcessInfo list option go" where
  "getCPUProcess sort_Slice processes_err =
     (case processes_err of
        Inl err \<Rightarrow> ([Log (ProcessListFailed err)], Returns None)
      | Inr processes \<Rightarrow>
          (case scan processes ([], 0) of
             (processList, c) \<Rightarrow>
               if 5 \<le> c then ([], Returns (Some (take 5 (sort_Slice less_p0 processList))))
               else ([], Panics SliceBoundsOutOfRange)))"


text \<open>One such sort, to run the model: insertion from the right.\<close>

fun insert_by :: "('a \<Rightarrow> 'a \<Rightarrow> bool) \<Rightarrow> 'a \<Rightarrow> 'a list \<Rightarrow> 'a list" where
  "insert_by lt x [] = [x]"
| "insert_by lt x (y # ys) = (if lt y x then y # insert_by lt x ys else x # y # ys)"

fun insertion_sort :: "('a \<Rightarrow> 'a \<Rightarrow> bool) \<Rightarrow> 'a list \<Rightarrow> 'a list" where
  "insertion_sort lt [] = []"
| "insertion_sort lt (x # xs) = insert_by lt x (insertion_sort lt xs)"

fun marshal_ProcessInfo :: "ProcessInfo \<Rightarrow> error + json" where
  "marshal_ProcessInfo p =
     (case json_float64 (CPUPercent p) of
        Inl err \<Rightarrow> Inl err
      | Inr c \<Rightarrow>
          Inr (JObject [(''pid'', json_int32 (Pid p)), (''name'', JString (json_string (Name p))),
                        (''cpuPercent'', c)]))"

fun marshal_list :: "ProcessInfo list \<Rightarrow> error + json list" where
  "marshal_list [] = Inr []"
| "marshal_list (p # ps) =
     (case marshal_ProcessInfo p of
        Inl err \<Rightarrow> Inl err
      | Inr j \<Rightarrow> (case marshal_list ps of Inl err \<Rightarrow> Inl err | Inr js \<Rightarrow> Inr (j # js)))"

definition marshal_Processes :: "ProcessInfo list option \<Rightarrow> error + json" where
  "marshal_Processes ps =
     (case ps of
        None \<Rightarrow> Inr JNull
      | Some xs \<Rightarrow> (case marshal_list xs of Inl err \<Rightarrow> Inl err | Inr js \<Rightarrow> Inr (JArray js)))"

section \<open>The three samples and \<^verbatim>\<open>collectMetrics\<close>\<close>

text \<open>
  One record per \<^verbatim>\<open>Metrics\<close> struct, fields in the order of the source; the marshalling
  functions are \<^verbatim>\<open>json.Marshal\<close> at these structs, under the names of their tags.
\<close>

record Metrics_cmd =
  TenantId_cmd :: string
  Key_cmd :: string
  Timestamp_cmd :: string
  CPUUsage_cmd :: float64
  MemoryUsed_cmd :: uint64
  MemoryTotal_cmd :: uint64
  DiskUsed_cmd :: uint64
  DiskTotal_cmd :: uint64

definition marshal_cmd :: "Metrics_cmd \<Rightarrow> error + json" where
  "marshal_cmd m =
     (case json_float64 (CPUUsage_cmd m) of
        Inl err \<Rightarrow> Inl err
      | Inr c \<Rightarrow>
          Inr (JObject
              [(''tenantId'', JString (json_string (TenantId_cmd m))),
               (''key'', JString (json_string (Key_cmd m))),
               (''timestamp'', JString (json_string (Timestamp_cmd m))),
               (''cpuUsagePercent'', c),
               (''memoryUsedMb'', json_uint64 (MemoryUsed_cmd m)),
               (''memoryTotalMb'', json_uint64 (MemoryTotal_cmd m)),
               (''diskUsedGb'', json_uint64 (DiskUsed_cmd m)),
               (''diskTotalGb'', json_uint64 (DiskTotal_cmd m))]))"

record Metrics_p0 =
  TID_p0 :: string
  CID_p0 :: string
  Key_p0 :: string
  Timestamp_p0 :: string
  CPUUsage_p0 :: float64
  MemoryUsed_p0 :: uint64
  MemoryTotal_p0 :: uint64
  DiskUsed_p0 :: uint64
  DiskTotal_p0 :: uint64
  Processes_p0 :: "ProcessInfo list option"

definition marshal_p0 :: "Metrics_p0 \<Rightarrow> error + json" where
  "marshal_p0 m =
     (case json_float64 (CPUUsage_p0 m) of
        Inl err \<Rightarrow> Inl err
      | Inr c \<Rightarrow>
          (case marshal_Processes (Processes_p0 m) of
             Inl err \<Rightarrow> Inl err
           | Inr ps \<Rightarrow>
          Inr (JObject
              [(''tid'', JString (json_string (TID_p0 m))),
               (''cid'', JString (json_string (CID_p0 m))),
               (''key'', JString (json_string (Key_p0 m))),
               (''timestamp'', JString (json_string (Timestamp_p0 m))),
               (''cpuUsagePercent'', c),
               (''memoryUsedMb'', json_uint64 (MemoryUsed_p0 m)),
               (''memoryTotalMb'', json_uint64 (MemoryTotal_p0 m)),
               (''diskUsedGb'', json_uint64 (DiskUsed_p0 m)),
               (''diskTotalGb'', json_uint64 (DiskTotal_p0 m)),
               (''processList'', ps)])))"

record Metrics_p1 =
  Key_p1 :: string
  Timestamp_p1 :: string
  CPUUsage_p1 :: float64
  MemoryUsed_p1 :: uint64
  MemoryTotal_p1 :: uint64
  DiskUsed_p1 :: uint64
  DiskTotal_p1 :: uint64

definition marshal_p1 :: "Metrics_p1 \<Rightarrow> error + json" where
  "marshal_p1 m =
     (case json_float64 (CPUUsage_p1 m) of
        Inl err \<Rightarrow> Inl err
      | Inr c \<Rightarrow>
          Inr (JObject
              [(''key'', JString (json_string (Key_p1 m))),
               (''timestamp'', JString (json_string (Timestamp_p1 m))),
               (''cpu_usage_percent'', c),
               (''memory_used_mb'', json_uint64 (MemoryUsed_p1 m)),
               (''memory_total_mb'', json_uint64 (MemoryTotal_p1 m)),
               (''disk_used_gb'', json_uint64 (DiskUsed_p1 m)),
               (''disk_total_gb'', json_uint64 (DiskTotal_p1 m))]))"

text \<open>
  \<^verbatim>\<open>collectMetrics\<close>: \<^verbatim>\<open>cpuPercent[0]\<close> panics on an empty slice; the returned pair
  \<^verbatim>\<open>([]byte{}, err)\<close> is \<open>Inl err\<close> and \<^verbatim>\<open>(metricsJSON, nil)\<close> is \<open>Inr metricsJSON\<close>. The
  divisions are those of \<^verbatim>\<open>uint64\<close>. In \<^verbatim>\<open>part_000\<close> the first component is what
  \<^verbatim>\<open>getCPUProcess\<close> logged.
\<close>

definition collectMetrics_cmd :: "string \<Rightarrow> string \<Rightarrow> sampling \<Rightarrow> (error + json) go" where
  "collectMetrics_cmd tenantId key s =
     (case cpu_Percent s of
        Inl err \<Rightarrow> Returns (Inl err)
      | Inr [] \<Rightarrow> Panics IndexOutOfRange
      | Inr (c0 # rest) \<Rightarrow>
          (let cpuPercent0 = fdiv (math_Round (fmul c0 (Finite 10))) (Finite 10) in
           case mem_VirtualMemory s of
             Inl err \<Rightarrow> Returns (Inl err)
           | Inr memStats \<Rightarrow>
               (case disk_Usage s of
                  Inl err \<Rightarrow> Returns (Inl err)
                | Inr diskStats \<Rightarrow>
                    Returns
                      (marshal_cmd
                        \<lparr>TenantId_cmd = tenantId, Key_cmd = key, Timestamp_cmd = time_Now s, CPUUsage_cmd = cpuPercent0,
                         MemoryUsed_cmd = mem_Used memStats div 1024 div 1024,
                         MemoryTotal_cmd = mem_Total memStats div 1024 div 1024,
                         DiskUsed_cmd = disk_Used diskStats div 1024 div 1024 div 1024,
                         DiskTotal_cmd = disk_Total diskStats div 1024 div 1024 div 1024\<rparr>))))"

definition collectMetrics_p0 ::
  "((ProcessInfo \<Rightarrow> ProcessInfo \<Rightarrow> bool) \<Rightarrow> ProcessInfo list \<Rightarrow> ProcessInfo list)
   \<Rightarrow> string \<Rightarrow> string \<Rightarrow> string \<Rightarrow> sampling \<Rightarrow> event list \<times> (error + json) go" where
  "collectMetrics_p0 sort_Slice tid cid key s =
     (case cpu_Percent s of
        Inl err \<Rightarrow> ([], Returns (Inl err))
      | Inr [] \<Rightarrow> ([], Panics IndexOutOfRange)
      | Inr (c0 # rest) \<Rightarrow>
          (let cpuPercent0 = fdiv (math_Round (fmul c0 (Finite 10))) (Finite 10) in
           case mem_VirtualMemory s of
             Inl err \<Rightarrow> ([], Returns (Inl err))
           | Inr memStats \<Rightarrow>
               (case disk_Usage s of
                  Inl err \<Rightarrow> ([], Returns (Inl err))
                | Inr diskStats \<Rightarrow>
                    (case getCPUProcess sort_Slice (process_Processes s) of
                       (logged, Panics r) \<Rightarrow> (logged, Panics r)
                     | (logged, Returns processList) \<Rightarrow>
                    (logged, Returns
                      (marshal_p0
                        \<lparr>TID_p0 = tid, CID_p0 = cid, Key_p0 = key, Timestamp_p0 = time_Now s, CPUUsage_p0 = cpuPercent0,
                         MemoryUsed_p0 = mem_Used memStats div 1024 div 1024,
                         MemoryTotal_p0 = mem_Total memStats div 1024 div 1024,
                         DiskUsed_p0 = disk_Used diskStats div 1024 div 1024 div 1024,
                         DiskTotal_p0 = disk_Total diskStats div 1024 div 1024 div 1024,
                         Processes_p0 = processList\<rparr>))))))"

definition collectMetrics_p1 :: "string \<Rightarrow> sampling \<Rightarrow> (error + json) go" where
  "collectMetrics_p1 key s =
     (case cpu_Percent s of
        Inl err \<Rightarrow> Returns (Inl err)
      | Inr [] \<Rightarrow> Panics IndexOutOfRange
      | Inr (c0 # rest) \<Rightarrow>
          (let cpuPercent0 = fdiv (math_Round (fmul c0 (Finite 10))) (Finite 10) in
           case mem_VirtualMemory s of
             Inl err \<Rightarrow> Returns (Inl err)
           | Inr memStats \<Rightarrow>
               (case disk_Usage s of
                  Inl err \<Rightarrow> Returns (Inl err)
                | Inr diskStats \<Rightarrow>
                    Returns
                      (marshal_p1
                        \<lparr>Key_p1 = key, Timestamp_p1 = time_Now s, CPUUsage_p1 = cpuPercent0,
                         MemoryUsed_p1 = mem_Used memStats div 1024 div 1024,
                         MemoryTotal_p1 = mem_Total memStats div 1024 div 1024,
                         DiskUsed_p1 = disk_Used diskStats div 1024 div 1024 div 1024,
                         DiskTotal_p1 = disk_Total diskStats div 1024 div 1024 div 1024\<rparr>))))"

section \<open>\<^verbatim>\<open>main\<close>: startup and the steady-state loop\<close>

text \<open>
  The loop of \<^verbatim>\<open>main\<close> has no exit: it ends only with the process. A run is followed
  through a finite number of iterations, one \<open>cycle\<close> for each: what the Metrics Source
  answers in it and what \<^verbatim>\<open>conn.WriteMessage\<close> returns (\<open>None\<close> is \<^verbatim>\<open>nil\<close>). The
  result is the events of these iterations in order, and how they ended: \<open>Running\<close>
  (the loop goes on), \<open>Exited\<close> (\<^verbatim>\<open>main\<close> returned) or \<open>Crashed\<close> (a panic ended
  the process).
\<close>

record cycle =
  source :: sampling
  conn_WriteMessage :: "error option"

datatype status = Running | Exited | Crashed runtime_error

definition emit :: "event list \<Rightarrow> event list \<times> status \<Rightarrow> event list \<times> status" where
  "emit evs r = (evs @ fst r, snd r)"

text \<open>\<^verbatim>\<open>src/cmd/main.go\<close>, lines 63 to 78.\<close>

fun loop_cmd :: "string \<Rightarrow> string \<Rightarrow> cycle list \<Rightarrow> event list \<times> status" where
  "loop_cmd tenantId key [] = ([], Running)"
| "loop_cmd tenantId key (c # cs) =
     (case collectMetrics_cmd tenantId key (source c) of
        Panics r \<Rightarrow> ([CollectMetrics], Crashed r)
      | Returns (Inl err) \<Rightarrow>
          emit [CollectMetrics, Log (CollectFailed err)] (loop_cmd tenantId key cs)
      | Returns (Inr metrics) \<Rightarrow>
          (case conn_WriteMessage c of
             Some err \<Rightarrow>
               emit [CollectMetrics, WriteMessage metrics, Log (SendFailed err)]
                 (loop_cmd tenantId key cs)
           | None \<Rightarrow>
               emit [CollectMetrics, WriteMessage metrics, Log (SendDone metrics), Sleep 5]
                 (loop_cmd tenantId key cs)))"

text \<open>\<^verbatim>\<open>src/unnamed/part_000\<close>, lines 80 to 94: a failed send is not logged.\<close>

fun loop_p0 ::
  "((ProcessInfo \<Rightarrow> ProcessInfo \<Rightarrow> bool) \<Rightarrow> ProcessInfo list \<Rightarrow> ProcessInfo list)
   \<Rightarrow> string \<Rightarrow> string \<Rightarrow> string \<Rightarrow> cycle list \<Rightarrow> event list \<times> status" where
  "loop_p0 sort_Slice tid cid key [] = ([], Running)"
| "loop_p0 sort_Slice tid cid key (c # cs) =
     (case collectMetrics_p0 sort_Slice tid cid key (source c) of
        (logged, Panics r) \<Rightarrow> (CollectMetrics # logged, Crashed r)
      | (logged, Returns (Inl err)) \<Rightarrow>
          emit (CollectMetrics # logged @ [Log (CollectFailed err)])
            (loop_p0 sort_Slice tid cid key cs)
      | (logged, Returns (Inr metrics)) \<Rightarrow>
          (case conn_WriteMessage c of
             Some err \<Rightarrow>
               emit (CollectMetrics # logged @ [WriteMessage metrics])
                 (loop_p0 sort_Slice tid cid key cs)
           | None \<Rightarrow>
               emit (CollectMetrics # logged @ [WriteMessage metrics, Log (SendDone metrics), Sleep 5])
                 (loop_p0 sort_Slice tid cid key cs)))"

text \<open>\<^verbatim>\<open>src/unnamed/part_001\<close>, lines 55 to 70.\<close>

fun loop_p1 :: "string \<Rightarrow> cycle list \<Rightarrow> event list \<times> status" where
  "loop_p1 key [] = ([], Running)"
| "loop_p1 key (c # cs) =
     (case collectMetrics_p1 key (source c) of
        Panics r \<Rightarrow> ([CollectMetrics], Crashed r)
      | Returns (Inl err) \<Rightarrow>
          emit [CollectMetrics, Log (CollectFailed err)] (loop_p1 key cs)
      | Returns (Inr metrics) \<Rightarrow>
          (case conn_WriteMessage c of
             Some err \<Rightarrow>
               emit [CollectMetrics, WriteMessage metrics, Log (SendFailed err)] (loop_p1 key cs)
           | None \<Rightarrow>
               emit [CollectMetrics, WriteMessage metrics, Log (SendDone metrics), Sleep 5]
                 (loop_p1 key cs)))"

subsection \<open>Startup\<close>

text \<open>
  What \<^verbatim>\<open>websocket.DefaultDialer.Dial\<close> returns, as \<^verbatim>\<open>(conn, response, err)\<close>: a
  connection and the response with a nil error; on a refused handshake no connection, the
  response and \<^verbatim>\<open>ErrBadHandshake\<close>; on a network error (or any failure before a response
  was read) no connection, a nil response and the error. The header of a response is kept
  under the canonical names of \<^verbatim>\<open>net/http\<close>, and \<^verbatim>\<open>Get\<close> looks its argument up in
  canonical form: \<^verbatim>\<open>X-TENANT-ID\<close> as \<^verbatim>\<open>X-Tenant-Id\<close>; it returns the empty string when
  the name is absent, as \<^verbatim>\<open>os.Getenv\<close> does for a variable that is not set.
\<close>

record Response =
  Header :: "(string \<times> string) list"

datatype dial_result =
    Connected Response
  | BadHandshake Response error
  | NetworkError error

fun response_of :: "dial_result \<Rightarrow> Response option" where
  "response_of (Connected r) = Some r"
| "response_of (BadHandshake r err) = Some r"
| "response_of (NetworkError err) = None"

fun err_of :: "dial_result \<Rightarrow> error option" where
  "err_of (Connected r) = None"
| "err_of (BadHandshake r err) = Some err"
| "err_of (NetworkError err) = Some err"

definition Header_Get :: "(string \<times> string) list \<Rightarrow> string \<Rightarrow> string" where
  "Header_Get h k = (case map_of h k of None \<Rightarrow> [] | Some v \<Rightarrow> v)"

record startup =
  godotenv_Load :: "error option"
  env_SERVER_API_KEY :: string
  env_CONTAINERID :: string
  websocket_Dial :: dial_result

text \<open>
  A deferred \<^verbatim>\<open>conn.Close()\<close> runs when \<^verbatim>\<open>main\<close> returns or panics; while the loop
  runs it has not run.
\<close>

definition deferred_Close :: "event list \<times> status \<Rightarrow> event list \<times> status" where
  "deferred_Close r = (case snd r of Running \<Rightarrow> r | _ \<Rightarrow> (fst r @ [Close], snd r))"

text \<open>\<^verbatim>\<open>src/cmd/main.go\<close>, lines 30 to 79.\<close>

definition main_cmd :: "startup \<Rightarrow> cycle list \<Rightarrow> event list \<times> status" where
  "main_cmd st cycles =
     (case godotenv_Load st of
        Some err \<Rightarrow> ([Println (EnvLoadFailed err)], Exited)
      | None \<Rightarrow>
          (let key = env_SERVER_API_KEY st in
           if key = [] then ([Println ServerApiKeyMissing], Exited)
           else
             emit [Dial ''ws://localhost:8080/api/v1/public/monitoring'' [(''X-Agent-Key'', key)]]
               (case response_of (websocket_Dial st) of
                  None \<Rightarrow> ([], Crashed NilPointerDereference)
                | Some response \<Rightarrow>
                    (let tenantId = Header_Get (Header response) ''X-Tenant-Id'' in
                     if tenantId = [] then ([Println TenantMissing], Exited)
                     else
                       (case err_of (websocket_Dial st) of
                          Some err \<Rightarrow> ([Println (WebSocketFailed err)], Exited)
                        | None \<Rightarrow> deferred_Close (loop_cmd tenantId key cycles))))))"

text \<open>\<^verbatim>\<open>src/unnamed/part_000\<close>, lines 40 to 95.\<close>

definition main_p0 ::
  "((ProcessInfo \<Rightarrow> ProcessInfo \<Rightarrow> bool) \<Rightarrow> ProcessInfo list \<Rightarrow> ProcessInfo list)
   \<Rightarrow> startup \<Rightarrow> cycle list \<Rightarrow> event list \<times> status" where
  "main_p0 sort_Slice st cycles =
     (case godotenv_Load st of
        Some err \<Rightarrow> ([Println (EnvLoadFailed err)], Exited)
      | None \<Rightarrow>
          (let key = env_SERVER_API_KEY st; cid = env_CONTAINERID st in
           if key = [] then ([Println ServerApiKeyMissing], Exited)
           else if cid = [] then ([Println ContainerMissing], Exited)
           else
             emit [Dial ''ws://localhost:8000/api/v1/public/monitoring'' [(''X-Agent-Key'', key)]]
               (case response_of (websocket_Dial st) of
                  None \<Rightarrow> ([], Crashed NilPointerDereference)
                | Some response \<Rightarrow>
                    (let tid = Header_Get (Header response) ''X-Tenant-Id'' in
                     if tid = [] then ([Println TenantMissing], Exited)
                     else
                       (case err_of (websocket_Dial st) of
                          Some err \<Rightarrow> ([Println (WebSocketFailed err)], Exited)
                        | None \<Rightarrow> deferred_Close (loop_p0 sort_Slice tid cid key cycles))))))"

text \<open>\<^verbatim>\<open>src/unnamed/part_001\<close>, lines 29 to 71: the error is checked right after the dial.\<close>

definition main_p1 :: "startup \<Rightarrow> cycle list \<Rightarrow> event list \<times> status" where
  "main_p1 st cycles =
     (case godotenv_Load st of
        Some err \<Rightarrow> ([Println (EnvLoadFailed err)], Exited)
      | None \<Rightarrow>
          (let key = env_SERVER_API_KEY st in
           if key = [] then ([Println ServerApiKeyMissing], Exited)
           else
             emit [Dial ''ws://localhost:8080/api/v1/public/monitoring'' [(''X-Agent-Key'', key)]]
               (case err_of (websocket_Dial st) of
                  Some err \<Rightarrow> ([Println (WebSocketFailed err)], Exited)
                | None \<Rightarrow> deferred_Close (loop_p1 key cycles))))"

section \<open>Reading a payload back\<close>

text \<open>
  Modelled from the spec: the repository has no parser (it only sends), so reading a
  payload back is modelled from the wire format of the spec's section 6, one JSON object
  with the members named there: a string member is read as it stands, a number member into
  a \<^verbatim>\<open>float64\<close> field as the nearest \<^verbatim>\<open>float64\<close> (none when out of range), into an
  integer field when it is an integer of the field's range, \<^verbatim>\<open>processList\<close> as null or as
  an array of objects with the members \<^verbatim>\<open>pid\<close>, \<^verbatim>\<open>name\<close> and \<^verbatim>\<open>cpuPercent\<close>. The result
  is \<open>None\<close> when a member is missing or of another kind.

  \<open>valid_utf8 s\<close>: the string is a sequence of well-formed UTF-8 sequences.
  \<open>finite_float64 x\<close>: \<open>x\<close> is a finite value that a \<^verbatim>\<open>float64\<close> can hold.
\<close>

fun valid_utf8 :: "string \<Rightarrow> bool" where
  "valid_utf8 [] = True"
| "valid_utf8 (c # cs) = (let n = rune_len (c # cs) in n \<noteq> 0 \<and> valid_utf8 (drop (n - 1) cs))"

definition finite_float64 :: "float64 \<Rightarrow> bool" where
  "finite_float64 x =
     (case x of Finite q \<Rightarrow> binary64 q = q \<and> \<bar>q\<bar> \<le> max_float64 | _ \<Rightarrow> False)"

definition get_string :: "json \<Rightarrow> string \<Rightarrow> string option" where
  "get_string j k = (case member j k of Some (JString s) \<Rightarrow> Some s | _ \<Rightarrow> None)"

definition get_float64 :: "json \<Rightarrow> string \<Rightarrow> float64 option" where
  "get_float64 j k =
     (case member j k of
        Some (JNumber q) \<Rightarrow> (case to_float64 q of Finite r \<Rightarrow> Some (Finite r) | _ \<Rightarrow> None)
      | _ \<Rightarrow> None)"

definition get_uint64 :: "json \<Rightarrow> string \<Rightarrow> uint64 option" where
  "get_uint64 j k =
     (case member j k of
        Some (JNumber q) \<Rightarrow>
          if q = of_int \<lfloor>q\<rfloor> \<and> 0 \<le> q \<and> q < 2 ^ 64 then Some (word_of_int \<lfloor>q\<rfloor>) else None
      | _ \<Rightarrow> None)"

definition get_int32 :: "json \<Rightarrow> string \<Rightarrow> int32 option" where
  "get_int32 j k =
     (case member j k of
        Some (JNumber q) \<Rightarrow>
          if q = of_int \<lfloor>q\<rfloor> \<and> - (2 ^ 31) \<le> q \<and> q < 2 ^ 31 then Some (word_of_int \<lfloor>q\<rfloor>)
          else None
      | _ \<Rightarrow> None)"

definition unmarshal_ProcessInfo :: "json \<Rightarrow> ProcessInfo option" where
  "unmarshal_ProcessInfo j =
     Option.bind (get_int32 j ''pid'') (\<lambda>pid.
     Option.bind (get_string j ''name'') (\<lambda>name.
     Option.bind (get_float64 j ''cpuPercent'') (\<lambda>cpuPercent.
       Some \<lparr>Pid = pid, Name = name, CPUPercent = cpuPercent\<rparr>)))"

fun unmarshal_list :: "json list \<Rightarrow> ProcessInfo list option" where
  "unmarshal_list [] = Some []"
| "unmarshal_list (j # js) =
     Option.bind (unmarshal_ProcessInfo j) (\<lambda>p.
     Option.bind (unmarshal_list js) (\<lambda>ps. Some (p # ps)))"

definition get_Processes :: "json \<Rightarrow> string \<Rightarrow> ProcessInfo list option option" where
  "get_Processes j k =
     (case member j k of
        Some JNull \<Rightarrow> Some None
      | Some (JArray js) \<Rightarrow> map_option Some (unmarshal_list js)
      | _ \<Rightarrow> None)"

definition unmarshal_cmd :: "json \<Rightarrow> Metrics_cmd option" where
  "unmarshal_cmd j =
     Option.bind (get_string j ''tenantId'') (\<lambda>tenantId.
     Option.bind (get_string j ''key'') (\<lambda>key.
     Option.bind (get_string j ''timestamp'') (\<lambda>timestamp.
     Option.bind (get_float64 j ''cpuUsagePercent'') (\<lambda>cpu.
     Option.bind (get_uint64 j ''memoryUsedMb'') (\<lambda>memoryUsed.
     Option.bind (get_uint64 j ''memoryTotalMb'') (\<lambda>memoryTotal.
     Option.bind (get_uint64 j ''diskUsedGb'') (\<lambda>diskUsed.
     Option.bind (get_uint64 j ''diskTotalGb'') (\<lambda>diskTotal.
       Some \<lparr>TenantId_cmd = tenantId, Key_cmd = key, Timestamp_cmd = timestamp,
             CPUUsage_cmd = cpu, MemoryUsed_cmd = memoryUsed, MemoryTotal_cmd = memoryTotal,
             DiskUsed_cmd = diskUsed, DiskTotal_cmd = diskTotal\<rparr>))))))))"

definition unmarshal_p0 :: "json \<Rightarrow> Metrics_p0 option" where
  "unmarshal_p0 j =
     Option.bind (get_string j ''tid'') (\<lambda>tid.
     Option.bind (get_string j ''cid'') (\<lambda>cid.
     Option.bind (get_string j ''key'') (\<lambda>key.
     Option.bind (get_string j ''timestamp'') (\<lambda>timestamp.
     Option.bind (get_float64 j ''cpuUsagePercent'') (\<lambda>cpu.
     Option.bind (get_uint64 j ''memoryUsedMb'') (\<lambda>memoryUsed.
     Option.bind (get_uint64 j ''memoryTotalMb'') (\<lambda>memoryTotal.
     Option.bind (get_uint64 j ''diskUsedGb'') (\<lambda>diskUsed.
     Option.bind (get_uint64 j ''diskTotalGb'') (\<lambda>diskTotal.
     Option.bind (get_Processes j ''processList'') (\<lambda>processes.
       Some \<lparr>TID_p0 = tid, CID_p0 = cid, Key_p0 = key, Timestamp_p0 = timestamp,
             CPUUsage_p0 = cpu, MemoryUsed_p0 = memoryUsed, MemoryTotal_p0 = memoryTotal,
             DiskUsed_p0 = diskUsed, DiskTotal_p0 = diskTotal,
             Processes_p0 = processes\<rparr>))))))))))"

definition valid_ProcessInfo :: "ProcessInfo \<Rightarrow> bool" where
  "valid_ProcessInfo p = (valid_utf8 (Name p) \<and> finite_float64 (CPUPercent p))"

definition valid_cmd :: "Metrics_cmd \<Rightarrow> bool" where
  "valid_cmd m =
     (valid_utf8 (TenantId_cmd m) \<and> valid_utf8 (Key_cmd m) \<and> valid_utf8 (Timestamp_cmd m)
      \<and> finite_float64 (CPUUsage_cmd m))"

definition valid_p0 :: "Metrics_p0 \<Rightarrow> bool" where
  "valid_p0 m =
     (valid_utf8 (TID_p0 m) \<and> valid_utf8 (CID_p0 m) \<and> valid_utf8 (Key_p0 m)
      \<and> valid_utf8 (Timestamp_p0 m) \<and> finite_float64 (CPUUsage_p0 m)
      \<and> (case Processes_p0 m of None \<Rightarrow> True | Some ps \<Rightarrow> list_all valid_ProcessInfo ps))"

text \<open>Serializing a sample and reading the payload back; \<open>None\<close> when either step fails.\<close>

definition round_trip_cmd :: "Metrics_cmd \<Rightarrow> Metrics_cmd option" where
  "round_trip_cmd m = (case marshal_cmd m of Inl err \<Rightarrow> None | Inr p \<Rightarrow> unmarshal_cmd p)"

definition round_trip_p0 :: "Metrics_p0 \<Rightarrow> Metrics_p0 option" where
  "round_trip_p0 m = (case marshal_p0 m of Inl err \<Rightarrow> None | Inr p \<Rightarrow> unmarshal_p0 p)"

section \<open>Notions used in the statements\<close>

text \<open>
  \<open>appended processes\<close>: the elements that the loop of lines 150 to 161 of \<^verbatim>\<open>part_000\<close>
  appends, in order: one for each process whose CPU percent could be read.
  \<open>cap_ok n c\<close> holds of the length and the capacity of the slice throughout that loop.
\<close>

fun appended :: "Process list \<Rightarrow> ProcessInfo list" where
  "appended [] = []"
| "appended (p # ps) =
     (case proc_CPUPercent p of
        Inl err \<Rightarrow> appended ps
      | Inr cpuPercent \<Rightarrow>
          \<lparr>Pid = proc_Pid p, Name = fst (proc_Name p),
           CPUPercent = fdiv (math_Round (fmul cpuPercent (Finite 100))) (Finite 100)\<rparr>
            # appended ps)"

definition cap_ok :: "nat \<Rightarrow> nat \<Rightarrow> bool" where
  "cap_ok n c = (n \<le> c \<and> (5 \<le> c \<longrightarrow> 5 \<le> n) \<and> c \<noteq> 3)"

section \<open>Inputs of the examples\<close>

text \<open>
  \<open>scenario\<close>: a CPU reading of 42.37 percent (the nearest \<^verbatim>\<open>float64\<close>), 2048 of 8192
  megabytes of memory and 50 of 500 gigabytes of disk in use; the process list cannot be
  read. \<open>process pid q\<close> is a process whose name and CPU percent \<open>q\<close> can be read,
  \<open>gone pid\<close> one whose CPU percent cannot (it has exited).
\<close>

definition scenario :: sampling where
  "scenario =
     \<lparr>cpu_Percent = Inr [Finite (binary64 (4237 / 100))],
      mem_VirtualMemory = Inr \<lparr>mem_Total = 8192 * 1024 * 1024, mem_Used = 2048 * 1024 * 1024\<rparr>,
      disk_Usage =
        Inr \<lparr>disk_Total = 500 * 1024 * 1024 * 1024, disk_Used = 50 * 1024 * 1024 * 1024\<rparr>,
      time_Now = ''2024-01-01T00:00:00+09:00'',
      process_Processes = Inl (Error ''open /proc: permission denied'')\<rparr>"

definition process :: "nat \<Rightarrow> rat \<Rightarrow> Process" where
  "process pid q =
     \<lparr>proc_Pid = of_nat pid, proc_Name = (''proc'', None),
      proc_CPUPercent = Inr (Finite (binary64 q))\<rparr>"

definition gone :: "nat \<Rightarrow> Process" where
  "gone pid =
     \<lparr>proc_Pid = of_nat pid, proc_Name = ([], Some (Error ''no such process'')),
      proc_CPUPercent = Inl (Error ''no such process'')\<rparr>"

definition three_processes :: "Process list" where
  "three_processes = [process 1 (12345 / 1000), process 2 (99999 / 1000), process 3 (1 / 1000)]"

definition six_processes :: "Process list" where
  "six_processes =
     [process 1 (12345 / 1000), gone 2, process 3 (99999 / 1000), process 4 (1 / 1000),
      process 5 0, process 6 50]"

text \<open>
  \<open>scenario_p0\<close> is \<open>scenario\<close> with a process list that can be read. \<open>failing s err w\<close>
  is a cycle in which \<^verbatim>\<open>cpu.Percent\<close> returns the error \<open>err\<close>. The three payloads are
  those of the scenario under the key \<^verbatim>\<open>abc123\<close>, the tenant \<^verbatim>\<open>t1\<close> and the container
  \<^verbatim>\<open>c1\<close>.
\<close>

definition scenario_p0 :: sampling where
  "scenario_p0 = scenario\<lparr>process_Processes := Inr six_processes\<rparr>"

definition failing :: "sampling \<Rightarrow> error \<Rightarrow> error option \<Rightarrow> cycle" where
  "failing s err w = \<lparr>source = s\<lparr>cpu_Percent := Inl err\<rparr>, conn_WriteMessage = w\<rparr>"

definition payload_cmd :: json where
  "payload_cmd =
     JObject
       [(''tenantId'', JString ''t1''), (''key'', JString ''abc123''),
        (''timestamp'', JString ''2024-01-01T00:00:00+09:00''),
        (''cpuUsagePercent'', JNumber (binary64 (424 / 10))),
        (''memoryUsedMb'', JNumber 2048), (''memoryTotalMb'', JNumber 8192),
        (''diskUsedGb'', JNumber 50), (''diskTotalGb'', JNumber 500)]"

definition payload_p1 :: json where
  "payload_p1 =
     JObject
       [(''key'', JString ''abc123''),
        (''timestamp'', JString ''2024-01-01T00:00:00+09:00''),
        (''cpu_usage_percent'', JNumber (binary64 (424 / 10))),
        (''memory_used_mb'', JNumber 2048), (''memory_total_mb'', JNumber 8192),
        (''disk_used_gb'', JNumber 50), (''disk_total_gb'', JNumber 500)]"

definition payload_p0 :: "json \<Rightarrow> json" where
  "payload_p0 processList =
     JObject
       [(''tid'', JString ''t1''), (''cid'', JString ''c1''), (''key'', JString ''abc123''),
        (''timestamp'', JString ''2024-01-01T00:00:00+09:00''),
        (''cpuUsagePercent'', JNumber (binary64 (424 / 10))),
        (''memoryUsedMb'', JNumber 2048), (''memoryTotalMb'', JNumber 8192),
        (''diskUsedGb'', JNumber 50), (''diskTotalGb'', JNumber 500),
        (''processList'', processList)]"

definition six_json :: json where
  "six_json =
     JArray
       [JObject [(''pid'', JNumber 3), (''name'', JString ''proc''), (''cpuPercent'', JNumber 100)],
        JObject [(''pid'', JNumber 6), (''name'', JString ''proc''), (''cpuPercent'', JNumber 50)],
        JObject [(''pid'', JNumber 1), (''name'', JString ''proc''),
                 (''cpuPercent'', JNumber (binary64 (1235 / 100)))],
        JObject [(''pid'', JNumber 4), (''name'', JString ''proc''), (''cpuPercent'', JNumber 0)],
        JObject [(''pid'', JNumber 5), (''name'', JString ''proc''), (''cpuPercent'', JNumber 0)]]"

text \<open>The samples of the scenario, as \<^verbatim>\<open>collectMetrics\<close> builds them.\<close>

definition sample_cmd :: Metrics_cmd where
  "sample_cmd =
     \<lparr>TenantId_cmd = ''t1'', Key_cmd = ''abc123'',
      Timestamp_cmd = ''2024-01-01T00:00:00+09:00'', CPUUsage_cmd = Finite (binary64 (424 / 10)),
      MemoryUsed_cmd = 2048, MemoryTotal_cmd = 8192, DiskUsed_cmd = 50, DiskTotal_cmd = 500\<rparr>"

definition sample_p0 :: Metrics_p0 where
  "sample_p0 =
     \<lparr>TID_p0 = ''t1'', CID_p0 = ''c1'', Key_p0 = ''abc123'',
      Timestamp_p0 = ''2024-01-01T00:00:00+09:00'', CPUUsage_p0 = Finite (binary64 (424 / 10)),
      MemoryUsed_p0 = 2048, MemoryTotal_p0 = 8192, DiskUsed_p0 = 50, DiskTotal_p0 = 500,
      Processes_p0 = Some [\<lparr>Pid = 3, Name = ''proc'', CPUPercent = Finite 100\<rparr>]\<rparr>"

text \<open>\<open>scenario_15\<close> is \<open>scenario\<close> with the CPU reading 0.15 (the nearest \<^verbatim>\<open>float64\<close>).\<close>

definition scenario_15 :: sampling where
  "scenario_15 = scenario\<lparr>cpu_Percent := Inr [Finite (binary64 (15 / 100))]\<rparr>"

section \<open>Facts about the \<^verbatim>\<open>float64\<close> operations\<close>

text \<open>
  \<open>binary64\<close> is rounding to the nearest point of the grid of spacing \<open>2 powi e\<close>, where
  \<open>e\<close> is 52 below the binary exponent of the argument (and at least \<open>- 1074\<close>): the
  exponent is the right one, the error is at most half the spacing, and the function
  agrees with the values of some decimal literals.
\<close>

lemma binary64_known_values:
  "binary64 (1 / 10) = 3602879701896397 / 36028797018963968"
  "binary64 (1 / 3) = 6004799503160661 / 18014398509481984"
  "binary64 (4237 / 100) = 5963047381615247 / 140737488355328"
  "binary64 (424 / 10) = 5967269506265907 / 140737488355328"
  "binary64 (99999 / 1000) = 3518402024511111 / 35184372088832"
  "binary64 (- (1 / 10)) = - (3602879701896397 / 36028797018963968)"
  "binary64 (2 ^ 53 + 1) = 2 ^ 53"
  "binary64 (2 ^ 53 + 3) = 2 ^ 53 + 4"
  by code_simp+

lemma ilog2_bounds:
  assumes "0 < q"
  shows "2 powi ilog2 q \<le> q \<and> q < 2 powi (ilog2 q + 1)"
proof (cases "1 \<le> q")
  case True
  let ?n = "\<lfloor>q\<rfloor>"
  have n: "0 < ?n" using True by simp
  have b: "0 < bitlen ?n" using n bitlen_eq_zero_iff[of ?n] bitlen_nonneg[of ?n] by linarith
  from bitlen_bounds[OF n] have lo: "2 ^ nat (bitlen ?n - 1) \<le> ?n" and hi: "?n < 2 ^ nat (bitlen ?n)"
    by auto
  have "(2 :: rat) ^ nat (bitlen ?n - 1) \<le> of_int ?n" using lo by simp
  moreover have "rat_of_int ?n \<le> q" by (rule of_int_floor_le)
  ultimately have A: "(2 :: rat) ^ nat (bitlen ?n - 1) \<le> q" by linarith
  have "?n + 1 \<le> 2 ^ nat (bitlen ?n)" using hi by simp
  then have "rat_of_int (?n + 1) \<le> 2 ^ nat (bitlen ?n)" by (metis of_int_le_iff of_int_numeral of_int_power)
  moreover have "q < rat_of_int (?n + 1)" by simp linarith
  ultimately have B: "q < 2 ^ nat (bitlen ?n)" by linarith
  show ?thesis using True b A B by (simp add: ilog2_def power_int_def)
next
  case False
  let ?r = "1 / q"
  let ?m = "\<lceil>?r\<rceil> - 1"
  let ?b = "bitlen ?m"
  have r: "1 < ?r" using assms False by simp
  then have m: "0 < ?m" by simp
  from bitlen_bounds[OF m] have lo: "2 ^ nat (?b - 1) \<le> ?m" and hi: "?m < 2 ^ nat ?b" by auto
  have b: "0 < ?b" using m bitlen_eq_zero_iff[of ?m] bitlen_nonneg[of ?m] by linarith
  have "?m + 1 \<le> 2 ^ nat ?b" using hi by simp
  then have "rat_of_int (?m + 1) \<le> 2 ^ nat ?b" by (metis of_int_le_iff of_int_numeral of_int_power)
  moreover have "?r \<le> of_int (?m + 1)" by simp
  ultimately have "?r \<le> 2 ^ nat ?b" by linarith
  then have A: "1 / 2 ^ nat ?b \<le> q" using assms by (simp add: field_simps)
  have "(2 :: rat) ^ nat (?b - 1) \<le> of_int ?m" using lo by (metis of_int_le_iff of_int_numeral of_int_power)
  moreover have "of_int ?m < ?r" using ceiling_correct[of ?r] by simp
  ultimately have "2 ^ nat (?b - 1) < ?r" by linarith
  then have B: "q < 1 / 2 ^ nat (?b - 1)" using assms by (simp add: field_simps)
  have "2 powi (- ?b) = (1 :: rat) / 2 ^ nat ?b" using b by (simp add: power_int_def field_simps)
  moreover have "2 powi (- ?b + 1) = (1 :: rat) / 2 ^ nat (?b - 1)"
  proof (cases "?b = 1")
    case True
    then show ?thesis by simp
  next
    case F: False
    then have "- ?b + 1 < 0" using b by linarith
    moreover have "nat (- (- ?b + 1)) = nat (?b - 1)" by simp
    ultimately show ?thesis by (simp add: power_int_def field_simps)
  qed
  ultimately show ?thesis using A B False by (simp add: ilog2_def)
qed

lemma round_ties_even_near: "\<bar>of_int (round_ties_even y) - y\<bar> \<le> 1 / 2"
proof -
  have "rat_of_int \<lfloor>y\<rfloor> \<le> y" "y < rat_of_int \<lfloor>y\<rfloor> + 1" by linarith+
  then show ?thesis by (auto simp: round_ties_even_def Let_def)
qed

lemma binary64_error:
  assumes "q \<noteq> 0" and "e = max (ilog2 \<bar>q\<bar> - 52) (- 1074)"
  shows "\<bar>binary64 q - q\<bar> \<le> 2 powi e / 2"
proof -
  let ?y = "\<bar>q\<bar> / (2 powi e)"
  have p: "(0 :: rat) < 2 powi e" by simp
  have "binary64 q = sgn q * (of_int (round_ties_even ?y) * (2 powi e))"
    using assms by (simp add: binary64_def Let_def)
  moreover have "q = sgn q * (?y * (2 powi e))" using p by (simp add: sgn_if)
  ultimately have "binary64 q - q = sgn q * ((of_int (round_ties_even ?y) - ?y) * (2 powi e))"
    by (simp add: algebra_simps)
  then have "\<bar>binary64 q - q\<bar> = \<bar>of_int (round_ties_even ?y) - ?y\<bar> * (2 powi e)"
    using assms(1) by (simp add: abs_mult abs_sgn_eq)
  also have "\<dots> \<le> 1 / 2 * (2 powi e)"
    using round_ties_even_near[of ?y] p by (intro mult_right_mono) auto
  finally show ?thesis by simp
qed

text \<open>Bounds of the rounded values, and of the two roundings of the sources.\<close>

lemma round_ties_even_nonneg: "0 \<le> q \<Longrightarrow> 0 \<le> round_ties_even q"
  by (auto simp: round_ties_even_def Let_def)

lemma round_ties_even_le: "q \<le> of_int m \<Longrightarrow> round_ties_even q \<le> m"
  unfolding round_ties_even_def Let_def
  by (auto simp: floor_le_iff)

lemma bitlen_mono: "a \<le> b \<Longrightarrow> bitlen a \<le> bitlen b"
  by (simp add: bitlen_def floorlog_mono nat_mono)

lemma ilog2_mono:
  assumes "0 < x" "x \<le> y"
  shows "ilog2 x \<le> ilog2 y"
proof (cases "1 \<le> x")
  case True
  then have "1 \<le> y" using assms by simp
  moreover have "bitlen \<lfloor>x\<rfloor> \<le> bitlen \<lfloor>y\<rfloor>"
    using assms by (intro bitlen_mono floor_mono)
  ultimately show ?thesis using True by (simp add: ilog2_def)
next
  case False
  show ?thesis
  proof (cases "1 \<le> y")
    case True
    then have "1 \<le> \<lfloor>y\<rfloor>" by simp
    then have "bitlen 1 \<le> bitlen \<lfloor>y\<rfloor>" by (rule bitlen_mono)
    moreover have "bitlen 1 = 1" by (simp add: bitlen_def compute_floorlog)
    moreover have "0 \<le> bitlen (\<lceil>1 / x\<rceil> - 1)" by (rule bitlen_nonneg)
    ultimately show ?thesis using True False by (simp add: ilog2_def)
  next
    case y: False
    have "1 / y \<le> 1 / x" using assms by (simp add: frac_le)
    then have "\<lceil>1 / y\<rceil> \<le> \<lceil>1 / x\<rceil>" by (rule ceiling_mono)
    then have "\<lceil>1 / y\<rceil> - 1 \<le> \<lceil>1 / x\<rceil> - 1" by linarith
    then have "bitlen (\<lceil>1 / y\<rceil> - 1) \<le> bitlen (\<lceil>1 / x\<rceil> - 1)" by (rule bitlen_mono)
    then show ?thesis using False y by (simp add: ilog2_def)
  qed
qed

lemma binary64_nonneg: "0 \<le> q \<Longrightarrow> 0 \<le> binary64 q"
  by (auto simp: binary64_def Let_def round_ties_even_nonneg divide_nonneg_pos sgn_if)

lemma ilog2_less_2p53: 
  assumes "0 < x" "x \<le> of_int n" "n < 2 ^ 53"
  shows "ilog2 x \<le> 52"
proof (cases "1 \<le> x")
  case True
  have "\<lfloor>x\<rfloor> \<le> n" using assms by (simp add: floor_le_iff)
  then have "\<lfloor>x\<rfloor> < 2 ^ 53" using assms by simp
  then have "bitlen \<lfloor>x\<rfloor> \<le> 53" by (simp add: bitlen_le_iff_power)
  then show ?thesis using True by (simp add: ilog2_def)
next
  case False
  have "0 \<le> bitlen (\<lceil>1 / x\<rceil> - 1)" by (rule bitlen_nonneg)
  then show ?thesis using False by (simp add: ilog2_def)
qed

lemma binary64_le_int:
  assumes "0 < x" "x \<le> of_int n" "n < 2 ^ 53"
  shows "binary64 x \<le> of_int n"
proof -
  define e where "e = max (ilog2 \<bar>x\<bar> - 52) (- 1074)"
  have e: "e \<le> 0" using ilog2_less_2p53[OF assms] assms(1) by (simp add: e_def)
  define k where "k = nat (- e)"
  have p: "(2::rat) powi e = 1 / 2 ^ k" using e by (simp add: k_def power_int_def divide_simps)
  have "\<bar>x\<bar> / (2 powi e) = x * 2 ^ k" using assms(1) by (simp add: p)
  moreover have "x * 2 ^ k \<le> of_int (n * 2 ^ k)" using assms(2) by simp
  ultimately have "round_ties_even (\<bar>x\<bar> / (2 powi e)) \<le> n * 2 ^ k"
    using round_ties_even_le by metis
  then have "rat_of_int (round_ties_even (\<bar>x\<bar> / (2 powi e))) \<le> of_int (n * 2 ^ k)"
    using of_int_le_iff by blast
  then have "of_int (round_ties_even (\<bar>x\<bar> / (2 powi e))) * (2 powi e) \<le> rat_of_int n"
    by (simp add: p divide_simps)
  then show ?thesis using assms(1) by (simp add: binary64_def Let_def e_def)
qed


lemma max_float64_ge53: "2 ^ 53 \<le> max_float64"
  by (simp add: max_float64_def)

lemma to_float64_Finite53:
  assumes "0 \<le> x" "x \<le> of_int n" "n < 2 ^ 53"
  shows "to_float64 x = Finite (binary64 x)" "0 \<le> binary64 x" "binary64 x \<le> of_int n"
proof -
  show a: "0 \<le> binary64 x" using assms(1) by (rule binary64_nonneg)
  show b: "binary64 x \<le> of_int n"
  proof (cases "x = 0")
    case True
    then show ?thesis using assms by (simp add: binary64_def)
  next
    case False
    then show ?thesis using assms by (intro binary64_le_int) auto
  qed
  have "rat_of_int n \<le> of_int (2 ^ 53)" using assms(3) by (simp only: of_int_le_iff)
  then have "rat_of_int n \<le> 2 ^ 53" by simp
  then have "binary64 x \<le> max_float64" using b max_float64_ge53 by linarith
  moreover have "(0::rat) \<le> 2 ^ 53" by simp
  then have "- max_float64 \<le> binary64 x" using a max_float64_ge53 by linarith
  ultimately show "to_float64 x = Finite (binary64 x)"
    by (simp add: to_float64_def Let_def)
qed

lemma round_half_away_bounds:
  assumes "0 \<le> y" "y \<le> of_int n"
  shows "0 \<le> round_half_away y" "round_half_away y \<le> n"
  using assms by (auto simp: round_half_away_def floor_le_iff) 

lemma round_scaled:
  fixes k b :: int
  assumes "0 \<le> q" "q \<le> of_int b" "1 \<le> k" "b * k < 2 ^ 53"
  shows "fdiv (math_Round (fmul (Finite q) (Finite (of_int k)))) (Finite (of_int k))
           = Finite (binary64 (of_int (round_half_away (binary64 (q * of_int k))) / of_int k))"
    and "0 \<le> binary64 (of_int (round_half_away (binary64 (q * of_int k))) / of_int k)"
    and "binary64 (of_int (round_half_away (binary64 (q * of_int k))) / of_int k) \<le> of_int b"
proof -
  let ?y = "binary64 (q * of_int k)"
  let ?n = "round_half_away ?y"
  have k: "(0 :: rat) < of_int k" "(1 :: rat) \<le> of_int k" using assms(3) by auto
  have b: "0 \<le> b" using assms(1,2) by (meson of_int_0_le_iff order_trans)
  have "b * 1 \<le> b * k" using b assms(3) by (intro mult_left_mono) auto
  then have b53: "b < 2 ^ 53" using assms(4) by simp
  have qk: "0 \<le> q * of_int k" using assms(1) k by simp
  have "q * of_int k \<le> of_int b * of_int k" using assms(2) k by (intro mult_right_mono) auto
  then have qk': "q * of_int k \<le> of_int (b * k)" by simp
  have y: "to_float64 (q * of_int k) = Finite ?y" "0 \<le> ?y" "?y \<le> of_int (b * k)"
    using to_float64_Finite53[OF qk qk' assms(4)] by auto
  have n: "0 \<le> ?n" "?n \<le> b * k" using round_half_away_bounds[OF y(2,3)] by auto
  have "rat_of_int ?n \<le> of_int (b * k)" using n(2) by (simp only: of_int_le_iff)
  then have "rat_of_int ?n / of_int k \<le> of_int b" using k by (simp add: divide_le_eq)
  moreover have "0 \<le> rat_of_int ?n / of_int k" using n(1) k by simp
  ultimately have r: "to_float64 (of_int ?n / of_int k) = Finite (binary64 (of_int ?n / of_int k))"
    "0 \<le> binary64 (of_int ?n / of_int k)" "binary64 (of_int ?n / of_int k) \<le> of_int b"
    using to_float64_Finite53[OF _ _ b53] by auto
  have "rat_of_int k \<noteq> 0" using k by auto
  then show "fdiv (math_Round (fmul (Finite q) (Finite (of_int k)))) (Finite (of_int k))
               = Finite (binary64 (of_int ?n / of_int k))"
    using y(1) r(1) by simp
  show "0 \<le> binary64 (of_int ?n / of_int k)" by (rule r(2))
  show "binary64 (of_int ?n / of_int k) \<le> of_int b" by (rule r(3))
qed






lemma cpu_round_bounds:
  assumes "0 \<le> q" "q \<le> 100"
  shows "fdiv (math_Round (fmul (Finite q) (Finite 10))) (Finite 10)
           = Finite (binary64 (of_int (round_half_away (binary64 (q * 10))) / 10))"
    and "0 \<le> binary64 (of_int (round_half_away (binary64 (q * 10))) / 10)"
    and "binary64 (of_int (round_half_away (binary64 (q * 10))) / 10) \<le> 100"
  using round_scaled[of q 100 10] assms by simp_all

lemma percent_round:
  assumes "0 \<le> q" "q \<le> 100"
  shows "fdiv (math_Round (fmul (Finite q) (Finite 100))) (Finite 100)
           = Finite (binary64 (of_int (round_half_away (binary64 (q * 100))) / 100))"
  using round_scaled(1)[of q 100 100] assms by simp

lemma round_half_away_near: "\<bar>of_int (round_half_away y) - y\<bar> \<le> 1 / 2"
proof (cases "0 \<le> y")
  case True
  have "rat_of_int \<lfloor>y + 1 / 2\<rfloor> \<le> y + 1 / 2" "y + 1 / 2 < rat_of_int \<lfloor>y + 1 / 2\<rfloor> + 1"
    by linarith+
  then have "\<bar>rat_of_int \<lfloor>y + 1 / 2\<rfloor> - y\<bar> \<le> 1 / 2" by linarith
  then show ?thesis using True by (simp add: round_half_away_def)
next
  case False
  have "rat_of_int \<lfloor>- y + 1 / 2\<rfloor> \<le> - y + 1 / 2" "- y + 1 / 2 < rat_of_int \<lfloor>- y + 1 / 2\<rfloor> + 1"
    by linarith+
  then have "\<bar>- rat_of_int \<lfloor>- y + 1 / 2\<rfloor> - y\<bar> \<le> 1 / 2" by linarith
  then show ?thesis using False by (simp add: round_half_away_def)
qed




lemma collectMetrics_cmd_ok:
  assumes "cpu_Percent s = Inr (c0 # rest)"
    and "fdiv (math_Round (fmul c0 (Finite 10))) (Finite 10) = Finite r"
    and "mem_VirtualMemory s = Inr memStats" and "disk_Usage s = Inr diskStats"
  shows "collectMetrics_cmd tenantId key s =
     Returns (Inr (JObject
       [(''tenantId'', JString (json_string tenantId)),
        (''key'', JString (json_string key)),
        (''timestamp'', JString (json_string (time_Now s))),
        (''cpuUsagePercent'', JNumber r),
        (''memoryUsedMb'', json_uint64 (mem_Used memStats div 1024 div 1024)),
        (''memoryTotalMb'', json_uint64 (mem_Total memStats div 1024 div 1024)),
        (''diskUsedGb'', json_uint64 (disk_Used diskStats div 1024 div 1024 div 1024)),
        (''diskTotalGb'', json_uint64 (disk_Total diskStats div 1024 div 1024 div 1024))]))"
  using assms
  by (simp add: collectMetrics_cmd_def marshal_cmd_def json_float64_def Let_def
      del: json_string.simps fmul.simps fdiv.simps math_Round.simps)

lemma collectMetrics_p1_ok:
  assumes "cpu_Percent s = Inr (c0 # rest)"
    and "fdiv (math_Round (fmul c0 (Finite 10))) (Finite 10) = Finite r"
    and "mem_VirtualMemory s = Inr memStats" and "disk_Usage s = Inr diskStats"
  shows "collectMetrics_p1 key s =
     Returns (Inr (JObject
       [(''key'', JString (json_string key)),
        (''timestamp'', JString (json_string (time_Now s))),
        (''cpu_usage_percent'', JNumber r),
        (''memory_used_mb'', json_uint64 (mem_Used memStats div 1024 div 1024)),
        (''memory_total_mb'', json_uint64 (mem_Total memStats div 1024 div 1024)),
        (''disk_used_gb'', json_uint64 (disk_Used diskStats div 1024 div 1024 div 1024)),
        (''disk_total_gb'', json_uint64 (disk_Total diskStats div 1024 div 1024 div 1024))]))"
  using assms
  by (simp add: collectMetrics_p1_def marshal_p1_def json_float64_def Let_def
      del: json_string.simps fmul.simps fdiv.simps math_Round.simps)

lemma ilog2_values: "ilog2 1000 = 9" "ilog2 100 = 6"
  by code_simp+

lemma binary64_error_le:
  fixes k :: int
  assumes "0 \<le> x" "x \<le> c" "ilog2 c \<le> k" "- 1022 \<le> k"
  shows "\<bar>binary64 x - x\<bar> \<le> 2 powi (k - 52) / 2"
proof (cases "x = 0")
  case True
  then show ?thesis by (simp add: binary64_def)
next
  case False
  then have x: "0 < x" using assms(1) by simp
  define e where "e = max (ilog2 \<bar>x\<bar> - 52) (- 1074)"
  have "ilog2 x \<le> k" using ilog2_mono[OF x assms(2)] assms(3) by simp
  then have "e \<le> k - 52" using assms(4) x by (simp add: e_def)
  then have "(2 :: rat) powi e \<le> 2 powi (k - 52)" by (intro power_int_increasing) auto
  moreover have "\<bar>binary64 x - x\<bar> \<le> 2 powi e / 2" using binary64_error[OF False e_def] .
  ultimately show ?thesis by linarith
qed

lemma cpu_round_near:
  assumes "0 \<le> q" "q \<le> 100"
  shows "\<bar>binary64 (of_int (round_half_away (binary64 (q * 10))) / 10) - q\<bar> \<le> 1 / 20 + 1 / 2 ^ 46"
proof -
  let ?y = "binary64 (q * 10)"
  let ?n = "round_half_away ?y"
  let ?r = "binary64 (of_int ?n / 10)"
  have q10: "0 \<le> q * 10" "q * 10 \<le> 1000" using assms by auto
  have a: "\<bar>?y - q * 10\<bar> \<le> 2 powi (9 - 52) / 2"
    using binary64_error_le[OF q10, of 9] ilog2_values by simp
  have y: "0 \<le> ?y" "?y \<le> of_int 1000"
    using to_float64_Finite53(2,3)[of "q * 10" 1000] q10 by auto
  have n: "0 \<le> ?n" "?n \<le> 1000" using round_half_away_bounds[OF y] by auto
  have n10: "0 \<le> rat_of_int ?n / 10" "rat_of_int ?n / 10 \<le> 100" using n by auto
  have b: "\<bar>?r - of_int ?n / 10\<bar> \<le> 2 powi (6 - 52) / 2"
    using binary64_error_le[OF n10, of 6] ilog2_values by simp
  have c: "\<bar>of_int ?n - ?y\<bar> \<le> 1 / 2" by (rule round_half_away_near)
  have p: "(2 :: rat) powi (9 - 52) / 2 = 1 / 17592186044416"
    "(2 :: rat) powi (6 - 52) / 2 = 1 / 140737488355328"
    by (simp_all add: power_int_def power_divide)
  have c': "\<bar>of_int ?n / 10 - ?y / 10\<bar> \<le> 1 / 20" using c by linarith
  have a': "\<bar>?y / 10 - q\<bar> \<le> 1 / 175921860444160" using a unfolding p by linarith
  have b': "\<bar>?r - of_int ?n / 10\<bar> \<le> 1 / 140737488355328" using b unfolding p .
  have "\<bar>?r - q\<bar> \<le> 1 / 20 + 1 / 70368744177664"
    using a' b' c' by linarith
  then show ?thesis by simp
qed

section \<open>The CPU, memory and disk fields\<close>

lemma example_42_37:
  "binary64 (of_int (round_half_away (binary64 (binary64 (4237 / 100) * 10))) / 10) = binary64 (424 / 10)"
  by code_simp

lemma reading_0_15:
  "0 \<le> binary64 (15 / 100)" "binary64 (15 / 100) \<le> 100"
  "binary64 (of_int (round_half_away (binary64 (binary64 (15 / 100) * 10))) / 10) = binary64 (2 / 10)"
  "\<bar>1 / 10 - binary64 (15 / 100)\<bar> < 1 / 20"
  "1 / 20 < \<bar>binary64 (2 / 10) - binary64 (15 / 100)\<bar>"
  "binary64 (binary64 (15 / 100)) = binary64 (15 / 100)"
  by code_simp+


lemma json_string_abc123: "json_string ''abc123'' = ''abc123''"
  by simp

lemma json_string_t1: "json_string ''t1'' = ''t1''"
  by simp

lemma json_string_c1: "json_string ''c1'' = ''c1''"
  by simp

lemma json_string_time:
  "json_string ''2024-01-01T00:00:00+09:00'' = ''2024-01-01T00:00:00+09:00''"
  by simp

lemma scenario_reading:
  "0 \<le> binary64 (4237 / 100)" "binary64 (4237 / 100) \<le> 100"
  by code_simp+

lemma scenario_cpu:
  "fdiv (math_Round (fmul (Finite (binary64 (4237 / 100))) (Finite 10))) (Finite 10)
     = Finite (binary64 (424 / 10))"
  using cpu_round_bounds(1)[OF scenario_reading] by (simp add: example_42_37)

lemma scenario_words:
  "(2048 * 1024 * 1024 :: uint64) div 1024 div 1024 = 2048"
  "(8192 * 1024 * 1024 :: uint64) div 1024 div 1024 = 8192"
  "(50 * 1024 * 1024 * 1024 :: uint64) div 1024 div 1024 div 1024 = 50"
  "(500 * 1024 * 1024 * 1024 :: uint64) div 1024 div 1024 div 1024 = 500"
  by simp_all

lemma scenario_cmd:
  "collectMetrics_cmd ''t1'' ''abc123'' scenario =
     Returns (Inr (JObject
       [(''tenantId'', JString ''t1''), (''key'', JString ''abc123''),
        (''timestamp'', JString ''2024-01-01T00:00:00+09:00''),
        (''cpuUsagePercent'', JNumber (binary64 (424 / 10))),
        (''memoryUsedMb'', JNumber 2048), (''memoryTotalMb'', JNumber 8192),
        (''diskUsedGb'', JNumber 50), (''diskTotalGb'', JNumber 500)]))"
  unfolding collectMetrics_cmd_def scenario_def marshal_cmd_def
  by (simp add: scenario_cpu scenario_words json_float64_def json_uint64_def
      json_string_abc123 json_string_t1 json_string_time Let_def
      del: json_string.simps fmul.simps fdiv.simps math_Round.simps)

lemma scenario_p1:
  "collectMetrics_p1 ''abc123'' scenario =
     Returns (Inr (JObject
       [(''key'', JString ''abc123''),
        (''timestamp'', JString ''2024-01-01T00:00:00+09:00''),
        (''cpu_usage_percent'', JNumber (binary64 (424 / 10))),
        (''memory_used_mb'', JNumber 2048), (''memory_total_mb'', JNumber 8192),
        (''disk_used_gb'', JNumber 50), (''disk_total_gb'', JNumber 500)]))"
  unfolding collectMetrics_p1_def scenario_def marshal_p1_def
  by (simp add: scenario_cpu scenario_words json_float64_def json_uint64_def
      json_string_abc123 json_string_time Let_def
      del: json_string.simps fmul.simps fdiv.simps math_Round.simps)

lemma json_uint64_MB:
  "json_uint64 (w div 1024 div 1024) = JNumber (of_nat (unat w div (1024 * 1024)))"
  by (simp add: json_uint64_def unat_div div_mult2_eq)

lemma json_uint64_GB:
  "json_uint64 (w div 1024 div 1024 div 1024) = JNumber (of_nat (unat w div (1024 * 1024 * 1024)))"
  by (simp add: json_uint64_def unat_div div_mult2_eq)

text \<open>
  Claim C6, as amended. When the Metrics Source returns a CPU reading \<open>q\<close> with
  \<open>0 \<le> q \<le> 100\<close> and the memory and disk readings succeed, \<^verbatim>\<open>collectMetrics\<close> of
  \<^verbatim>\<open>src/cmd/main.go\<close> and of \<^verbatim>\<open>part_001\<close> return a payload whose CPU field is
  \<^verbatim>\<open>math.Round(q*10)/10\<close> in \<^verbatim>\<open>float64\<close> arithmetic: with \<open>n\<close> the integer nearest to the
  \<^verbatim>\<open>float64\<close> product \<open>q * 10\<close> (halves away from zero), the field is the \<^verbatim>\<open>float64\<close>
  quotient \<open>n / 10\<close>. The field lies between 0 and 100 and within \<open>1 / 20 + 1 / 2 ^ 46\<close> of
  the reading. The reading 42.37 gives the field 42.4 (each the nearest \<^verbatim>\<open>float64\<close>).
  The field need not be the one-decimal value nearest to the reading: see the reading
  0.15 below.
\<close>

theorem C6_cpu_usage_percent:
  assumes "cpu_Percent s = Inr (Finite q # rest)" and "0 \<le> q" and "q \<le> 100"
    and "mem_VirtualMemory s = Inr memStats" and "disk_Usage s = Inr diskStats"
  shows "\<exists>n r. n = round_half_away (binary64 (q * 10))
           \<and> r = binary64 (of_int n / 10)
           \<and> collectMetrics_cmd tenantId key s =
               Returns (Inr (JObject
                 [(''tenantId'', JString (json_string tenantId)),
                  (''key'', JString (json_string key)),
                  (''timestamp'', JString (json_string (time_Now s))),
                  (''cpuUsagePercent'', JNumber r),
                  (''memoryUsedMb'', json_uint64 (mem_Used memStats div 1024 div 1024)),
                  (''memoryTotalMb'', json_uint64 (mem_Total memStats div 1024 div 1024)),
                  (''diskUsedGb'', json_uint64 (disk_Used diskStats div 1024 div 1024 div 1024)),
                  (''diskTotalGb'',
                   json_uint64 (disk_Total diskStats div 1024 div 1024 div 1024))]))
           \<and> collectMetrics_p1 key s =
               Returns (Inr (JObject
                 [(''key'', JString (json_string key)),
                  (''timestamp'', JString (json_string (time_Now s))),
                  (''cpu_usage_percent'', JNumber r),
                  (''memory_used_mb'', json_uint64 (mem_Used memStats div 1024 div 1024)),
                  (''memory_total_mb'', json_uint64 (mem_Total memStats div 1024 div 1024)),
                  (''disk_used_gb'', json_uint64 (disk_Used diskStats div 1024 div 1024 div 1024)),
                  (''disk_total_gb'',
                   json_uint64 (disk_Total diskStats div 1024 div 1024 div 1024))]))
           \<and> \<bar>of_int n - binary64 (q * 10)\<bar> \<le> 1 / 2
           \<and> \<bar>r - q\<bar> \<le> 1 / 20 + 1 / 2 ^ 46
           \<and> 0 \<le> r \<and> r \<le> 100
           \<and> (q = binary64 (4237 / 100) \<longrightarrow> r = binary64 (424 / 10))"
proof -
  let ?n = "round_half_away (binary64 (q * 10))"
  let ?r = "binary64 (of_int ?n / 10)"
  note b = cpu_round_bounds[OF assms(2,3)]
  note cmd = collectMetrics_cmd_ok[OF assms(1) b(1) assms(4,5), of tenantId key]
  note p1 = collectMetrics_p1_ok[OF assms(1) b(1) assms(4,5), of key]
  have "\<bar>of_int ?n - binary64 (q * 10)\<bar> \<le> 1 / 2" by (rule round_half_away_near)
  moreover have "\<bar>?r - q\<bar> \<le> 1 / 20 + 1 / 2 ^ 46" using assms(2,3) by (rule cpu_round_near)
  moreover have "q = binary64 (4237 / 100) \<longrightarrow> ?r = binary64 (424 / 10)"
    using example_42_37 by simp
  ultimately show ?thesis using cmd p1 b(2,3) by blast
qed

theorem C6_cpu_usage_percent_witness:
  "collectMetrics_cmd ''t1'' ''abc123'' scenario = Returns (Inr payload_cmd)
   \<and> collectMetrics_p1 ''abc123'' scenario = Returns (Inr payload_p1)
   \<and> member payload_cmd ''cpuUsagePercent'' = Some (JNumber (binary64 (424 / 10)))
   \<and> member payload_p1 ''cpu_usage_percent'' = Some (JNumber (binary64 (424 / 10)))
   \<and> \<bar>binary64 (424 / 10) - binary64 (4237 / 100)\<bar> \<le> 1 / 20 + 1 / 2 ^ 46
   \<and> (0 :: rat) \<le> binary64 (424 / 10) \<and> binary64 (424 / 10) \<le> (100 :: rat)"
proof -
  have c: "cpu_Percent scenario = Inr [Finite (binary64 (4237 / 100))]"
    and m: "mem_VirtualMemory scenario
             = Inr \<lparr>mem_Total = 8192 * 1024 * 1024, mem_Used = 2048 * 1024 * 1024\<rparr>"
    and d: "disk_Usage scenario
             = Inr \<lparr>disk_Total = 500 * 1024 * 1024 * 1024, disk_Used = 50 * 1024 * 1024 * 1024\<rparr>"
    by (simp_all add: scenario_def)
  from C6_cpu_usage_percent[OF c scenario_reading m d, of "''t1''" "''abc123''"]
  obtain r where r: "r = binary64 (424 / 10)"
    and cmd: "collectMetrics_cmd ''t1'' ''abc123'' scenario =
               Returns (Inr (JObject
                 [(''tenantId'', JString (json_string ''t1'')),
                  (''key'', JString (json_string ''abc123'')),
                  (''timestamp'', JString (json_string (time_Now scenario))),
                  (''cpuUsagePercent'', JNumber r),
                  (''memoryUsedMb'', json_uint64 (mem_Used \<lparr>mem_Total = 8192 * 1024 * 1024, mem_Used = 2048 * 1024 * 1024\<rparr> div 1024 div 1024)),
                  (''memoryTotalMb'', json_uint64 (mem_Total \<lparr>mem_Total = 8192 * 1024 * 1024, mem_Used = 2048 * 1024 * 1024\<rparr> div 1024 div 1024)),
                  (''diskUsedGb'', json_uint64 (disk_Used \<lparr>disk_Total = 500 * 1024 * 1024 * 1024, disk_Used = 50 * 1024 * 1024 * 1024\<rparr> div 1024 div 1024 div 1024)),
                  (''diskTotalGb'',
                   json_uint64 (disk_Total \<lparr>disk_Total = 500 * 1024 * 1024 * 1024, disk_Used = 50 * 1024 * 1024 * 1024\<rparr> div 1024 div 1024 div 1024))]))"
    and p1: "collectMetrics_p1 ''abc123'' scenario =
               Returns (Inr (JObject
                 [(''key'', JString (json_string ''abc123'')),
                  (''timestamp'', JString (json_string (time_Now scenario))),
                  (''cpu_usage_percent'', JNumber r),
                  (''memory_used_mb'', json_uint64 (mem_Used \<lparr>mem_Total = 8192 * 1024 * 1024, mem_Used = 2048 * 1024 * 1024\<rparr> div 1024 div 1024)),
                  (''memory_total_mb'', json_uint64 (mem_Total \<lparr>mem_Total = 8192 * 1024 * 1024, mem_Used = 2048 * 1024 * 1024\<rparr> div 1024 div 1024)),
                  (''disk_used_gb'', json_uint64 (disk_Used \<lparr>disk_Total = 500 * 1024 * 1024 * 1024, disk_Used = 50 * 1024 * 1024 * 1024\<rparr> div 1024 div 1024 div 1024)),
                  (''disk_total_gb'',
                   json_uint64 (disk_Total \<lparr>disk_Total = 500 * 1024 * 1024 * 1024, disk_Used = 50 * 1024 * 1024 * 1024\<rparr> div 1024 div 1024 div 1024))]))"
    and near: "\<bar>r - binary64 (4237 / 100)\<bar> \<le> 1 / 20 + 1 / 2 ^ 46"
    and range: "0 \<le> r" "r \<le> 100"
    by blast
  have t: "time_Now scenario = ''2024-01-01T00:00:00+09:00''" by (simp add: scenario_def)
  have "collectMetrics_cmd ''t1'' ''abc123'' scenario = Returns (Inr payload_cmd)"
    unfolding cmd payload_cmd_def t r
    by (simp add: json_uint64_def json_string_abc123 json_string_t1 json_string_time
        del: json_string.simps)
  moreover have "collectMetrics_p1 ''abc123'' scenario = Returns (Inr payload_p1)"
    unfolding p1 payload_p1_def t r
    by (simp add: json_uint64_def json_string_abc123 json_string_time del: json_string.simps)
  moreover have "member payload_cmd ''cpuUsagePercent'' = Some (JNumber (binary64 (424 / 10)))"
    "member payload_p1 ''cpu_usage_percent'' = Some (JNumber (binary64 (424 / 10)))"
    by (simp_all add: payload_cmd_def payload_p1_def)
  ultimately show ?thesis using near range unfolding r by blast
qed

theorem C6_nearest_tenth_counterexample:
  "cpu_Percent scenario_15 = Inr [Finite (binary64 (15 / 100))]
   \<and> binary64 (binary64 (15 / 100)) = binary64 (15 / 100)
   \<and> 0 \<le> binary64 (15 / 100) \<and> binary64 (15 / 100) \<le> 100
   \<and> collectMetrics_cmd ''t1'' ''abc123'' scenario_15 =
       Returns (Inr (JObject
         [(''tenantId'', JString ''t1''), (''key'', JString ''abc123''),
          (''timestamp'', JString ''2024-01-01T00:00:00+09:00''),
          (''cpuUsagePercent'', JNumber (binary64 (2 / 10))),
          (''memoryUsedMb'', JNumber 2048), (''memoryTotalMb'', JNumber 8192),
          (''diskUsedGb'', JNumber 50), (''diskTotalGb'', JNumber 500)]))
   \<and> \<bar>1 / 10 - binary64 (15 / 100)\<bar> < 1 / 20
   \<and> 1 / 20 < \<bar>binary64 (2 / 10) - binary64 (15 / 100)\<bar>"
proof -
  have c: "cpu_Percent scenario_15 = Inr [Finite (binary64 (15 / 100))]"
    and m: "mem_VirtualMemory scenario_15
             = Inr \<lparr>mem_Total = 8192 * 1024 * 1024, mem_Used = 2048 * 1024 * 1024\<rparr>"
    and d: "disk_Usage scenario_15
             = Inr \<lparr>disk_Total = 500 * 1024 * 1024 * 1024, disk_Used = 50 * 1024 * 1024 * 1024\<rparr>"
    and t: "time_Now scenario_15 = ''2024-01-01T00:00:00+09:00''"
    by (simp_all add: scenario_15_def scenario_def)
  have f: "fdiv (math_Round (fmul (Finite (binary64 (15 / 100))) (Finite 10))) (Finite 10)
             = Finite (binary64 (2 / 10))"
    using cpu_round_bounds(1)[OF reading_0_15(1,2)] reading_0_15(3) by simp
  have "collectMetrics_cmd ''t1'' ''abc123'' scenario_15 =
       Returns (Inr (JObject
         [(''tenantId'', JString ''t1''), (''key'', JString ''abc123''),
          (''timestamp'', JString ''2024-01-01T00:00:00+09:00''),
          (''cpuUsagePercent'', JNumber (binary64 (2 / 10))),
          (''memoryUsedMb'', JNumber 2048), (''memoryTotalMb'', JNumber 8192),
          (''diskUsedGb'', JNumber 50), (''diskTotalGb'', JNumber 500)]))"
    unfolding collectMetrics_cmd_ok[OF c f m d] t
    by (simp add: json_uint64_def json_string_abc123 json_string_t1 json_string_time
        del: json_string.simps)
  then show ?thesis using c reading_0_15 by blast
qed

text \<open>
  Claim C7. When the CPU reading succeeds (its rounded value being finite), the memory and
  disk readings succeed and report no more bytes used than the total, \<^verbatim>\<open>collectMetrics\<close>
  of \<^verbatim>\<open>src/cmd/main.go\<close> and of \<^verbatim>\<open>part_001\<close> return a payload whose memory fields are the
  byte counts divided by \<open>1024 * 1024\<close> and whose disk fields are the byte counts divided
  by \<open>1024 * 1024 * 1024\<close>, remainders dropped, and the used field is at most the total
  field, for memory and for the disk.
\<close>

theorem C7_memory_disk_fields:
  assumes "cpu_Percent s = Inr (c0 # rest)"
    and "fdiv (math_Round (fmul c0 (Finite 10))) (Finite 10) = Finite r"
    and "mem_VirtualMemory s = Inr memStats" and "disk_Usage s = Inr diskStats"
    and "mem_Used memStats \<le> mem_Total memStats"
    and "disk_Used diskStats \<le> disk_Total diskStats"
  shows "collectMetrics_cmd tenantId key s =
           Returns (Inr (JObject
             [(''tenantId'', JString (json_string tenantId)),
              (''key'', JString (json_string key)),
              (''timestamp'', JString (json_string (time_Now s))),
              (''cpuUsagePercent'', JNumber r),
              (''memoryUsedMb'', JNumber (of_nat (unat (mem_Used memStats) div (1024 * 1024)))),
              (''memoryTotalMb'', JNumber (of_nat (unat (mem_Total memStats) div (1024 * 1024)))),
              (''diskUsedGb'',
               JNumber (of_nat (unat (disk_Used diskStats) div (1024 * 1024 * 1024)))),
              (''diskTotalGb'',
               JNumber (of_nat (unat (disk_Total diskStats) div (1024 * 1024 * 1024))))]))
       \<and> collectMetrics_p1 key s =
           Returns (Inr (JObject
             [(''key'', JString (json_string key)),
              (''timestamp'', JString (json_string (time_Now s))),
              (''cpu_usage_percent'', JNumber r),
              (''memory_used_mb'', JNumber (of_nat (unat (mem_Used memStats) div (1024 * 1024)))),
              (''memory_total_mb'',
               JNumber (of_nat (unat (mem_Total memStats) div (1024 * 1024)))),
              (''disk_used_gb'',
               JNumber (of_nat (unat (disk_Used diskStats) div (1024 * 1024 * 1024)))),
              (''disk_total_gb'',
               JNumber (of_nat (unat (disk_Total diskStats) div (1024 * 1024 * 1024))))]))
       \<and> unat (mem_Used memStats) div (1024 * 1024) \<le> unat (mem_Total memStats) div (1024 * 1024)
       \<and> unat (disk_Used diskStats) div (1024 * 1024 * 1024)
           \<le> unat (disk_Total diskStats) div (1024 * 1024 * 1024)"
proof -
  have m: "unat (mem_Used memStats) div (1024 * 1024) \<le> unat (mem_Total memStats) div (1024 * 1024)"
    using assms(5) by (simp add: word_le_nat_alt div_le_mono)
  have d: "unat (disk_Used diskStats) div (1024 * 1024 * 1024)
             \<le> unat (disk_Total diskStats) div (1024 * 1024 * 1024)"
    using assms(6) by (simp add: word_le_nat_alt div_le_mono)
  have j: "json_uint64 (mem_Used memStats div 1024 div 1024)
             = JNumber (of_nat (unat (mem_Used memStats) div (1024 * 1024)))"
    "json_uint64 (mem_Total memStats div 1024 div 1024)
             = JNumber (of_nat (unat (mem_Total memStats) div (1024 * 1024)))"
    "json_uint64 (disk_Used diskStats div 1024 div 1024 div 1024)
             = JNumber (of_nat (unat (disk_Used diskStats) div (1024 * 1024 * 1024)))"
    "json_uint64 (disk_Total diskStats div 1024 div 1024 div 1024)
             = JNumber (of_nat (unat (disk_Total diskStats) div (1024 * 1024 * 1024)))"
    by (rule json_uint64_MB json_uint64_GB)+
  note cmd = collectMetrics_cmd_ok[OF assms(1-4), of tenantId key, unfolded j]
  note p1 = collectMetrics_p1_ok[OF assms(1-4), of key, unfolded j]
  show ?thesis using cmd p1 m d by blast
qed

theorem C7_memory_disk_fields_witness:
  "collectMetrics_cmd ''t1'' ''abc123'' scenario = Returns (Inr payload_cmd)
   \<and> collectMetrics_p1 ''abc123'' scenario = Returns (Inr payload_p1)
   \<and> member payload_cmd ''memoryUsedMb'' = Some (JNumber 2048)
   \<and> member payload_cmd ''memoryTotalMb'' = Some (JNumber 8192)
   \<and> member payload_cmd ''diskUsedGb'' = Some (JNumber 50)
   \<and> member payload_cmd ''diskTotalGb'' = Some (JNumber 500)
   \<and> member payload_p1 ''memory_used_mb'' = Some (JNumber 2048)
   \<and> member payload_p1 ''memory_total_mb'' = Some (JNumber 8192)
   \<and> member payload_p1 ''disk_used_gb'' = Some (JNumber 50)
   \<and> member payload_p1 ''disk_total_gb'' = Some (JNumber 500)
   \<and> unat (2048 * 1024 * 1024 :: uint64) div (1024 * 1024)
       \<le> unat (8192 * 1024 * 1024 :: uint64) div (1024 * 1024)
   \<and> unat (50 * 1024 * 1024 * 1024 :: uint64) div (1024 * 1024 * 1024)
       \<le> unat (500 * 1024 * 1024 * 1024 :: uint64) div (1024 * 1024 * 1024)"
proof -
  have c: "cpu_Percent scenario = Inr [Finite (binary64 (4237 / 100))]"
    and m: "mem_VirtualMemory scenario
             = Inr \<lparr>mem_Total = 8192 * 1024 * 1024, mem_Used = 2048 * 1024 * 1024\<rparr>"
    and d: "disk_Usage scenario
             = Inr \<lparr>disk_Total = 500 * 1024 * 1024 * 1024, disk_Used = 50 * 1024 * 1024 * 1024\<rparr>"
    and t: "time_Now scenario = ''2024-01-01T00:00:00+09:00''"
    by (simp_all add: scenario_def)
  have le: "mem_Used \<lparr>mem_Total = 8192 * 1024 * 1024, mem_Used = 2048 * 1024 * 1024 :: uint64\<rparr>
              \<le> mem_Total \<lparr>mem_Total = 8192 * 1024 * 1024 :: uint64, mem_Used = 2048 * 1024 * 1024\<rparr>"
    "disk_Used \<lparr>disk_Total = 500 * 1024 * 1024 * 1024, disk_Used = 50 * 1024 * 1024 * 1024 :: uint64\<rparr>
              \<le> disk_Total \<lparr>disk_Total = 500 * 1024 * 1024 * 1024 :: uint64, disk_Used = 50 * 1024 * 1024 * 1024\<rparr>"
    by simp_all
  note w = C7_memory_disk_fields[OF c scenario_cpu m d le, of "''t1''" "''abc123''"]
  have "collectMetrics_cmd ''t1'' ''abc123'' scenario = Returns (Inr payload_cmd)"
    using w unfolding payload_cmd_def t
    by (simp add: json_string_abc123 json_string_t1 json_string_time del: json_string.simps)
  moreover have "collectMetrics_p1 ''abc123'' scenario = Returns (Inr payload_p1)"
    using w unfolding payload_p1_def t
    by (simp add: json_string_abc123 json_string_time del: json_string.simps)
  moreover have "member payload_cmd ''memoryUsedMb'' = Some (JNumber 2048)"
    "member payload_cmd ''memoryTotalMb'' = Some (JNumber 8192)"
    "member payload_cmd ''diskUsedGb'' = Some (JNumber 50)"
    "member payload_cmd ''diskTotalGb'' = Some (JNumber 500)"
    "member payload_p1 ''memory_used_mb'' = Some (JNumber 2048)"
    "member payload_p1 ''memory_total_mb'' = Some (JNumber 8192)"
    "member payload_p1 ''disk_used_gb'' = Some (JNumber 50)"
    "member payload_p1 ''disk_total_gb'' = Some (JNumber 500)"
    by (simp_all add: payload_cmd_def payload_p1_def)
  moreover have "unat (2048 * 1024 * 1024 :: uint64) div (1024 * 1024)
       \<le> unat (8192 * 1024 * 1024 :: uint64) div (1024 * 1024)"
    "unat (50 * 1024 * 1024 * 1024 :: uint64) div (1024 * 1024 * 1024)
       \<le> unat (500 * 1024 * 1024 * 1024 :: uint64) div (1024 * 1024 * 1024)"
    using w by simp_all
  ultimately show ?thesis by blast
qed

section \<open>The process list of \<^verbatim>\<open>part_000\<close>\<close>

lemma scan_elems: "fst (scan ps (xs, c)) = xs @ appended ps"
  by (induction ps arbitrary: xs c) (auto simp: append_slice_def split: sum.splits)

lemma length_appended:
  "length (appended ps) = length (filter (\<lambda>p. \<not> isl (proc_CPUPercent p)) ps)"
  by (induction ps) (auto split: sum.splits)


lemma cap_ok_append:
  assumes "cap_ok (length xs) c"
  shows "cap_ok (length (fst (append_slice (xs, c) x))) (snd (append_slice (xs, c) x))"
  using assms by (auto simp: cap_ok_def append_slice_def growslice_def) arith

lemma scan_cap: "cap_ok (length xs) c \<Longrightarrow> cap_ok (length (fst (scan ps (xs, c)))) (snd (scan ps (xs, c)))"
proof (induction ps arbitrary: xs c)
  case Nil
  then show ?case by simp
next
  case (Cons p ps)
  show ?case
  proof (cases "proc_CPUPercent p")
    case (Inl err)
    then show ?thesis using Cons by simp
  next
    case (Inr cpuPercent)
    let ?x = "\<lparr>Pid = proc_Pid p, Name = fst (proc_Name p),
                CPUPercent = fdiv (math_Round (fmul cpuPercent (Finite 100))) (Finite 100)\<rparr>"
    obtain ys d where a: "append_slice (xs, c) ?x = (ys, d)" by (cases "append_slice (xs, c) ?x")
    have "cap_ok (length ys) d" using cap_ok_append[OF Cons.prems, of ?x] a by simp
    from Cons.IH[OF this] show ?thesis using Inr a by simp
  qed
qed

lemma scan_from_nil:
  "\<exists>c. scan ps ([], 0) = (appended ps, c) \<and> (5 \<le> c \<longleftrightarrow> 5 \<le> length (appended ps))"
proof -
  obtain ys c where s: "scan ps ([], 0) = (ys, c)" by (cases "scan ps ([], 0)")
  have "ys = appended ps" using scan_elems[of ps "[]" 0] s by simp
  moreover have "cap_ok (length ys) c" using scan_cap[of "[]" 0 ps] s by (simp add: cap_ok_def)
  ultimately show ?thesis using s by (auto simp: cap_ok_def)
qed

lemma getCPUProcess_Inr:
  "getCPUProcess sort_Slice (Inr processes) =
     ([], if length (appended processes) < 5 then Panics SliceBoundsOutOfRange
          else Returns (Some (take 5 (sort_Slice less_p0 (appended processes)))))"
proof -
  obtain c where "scan processes ([], 0) = (appended processes, c)"
    "5 \<le> c \<longleftrightarrow> 5 \<le> length (appended processes)"
    using scan_from_nil by blast
  then show ?thesis by (auto simp: getCPUProcess_def)
qed

lemma three_appended: "length (appended three_processes) = 3"
  by (simp add: three_processes_def process_def)







text \<open>
  Claim C1. When the enumeration succeeds, \<^verbatim>\<open>getCPUProcess\<close> panics on \<^verbatim>\<open>processList[:5]\<close>
  exactly when fewer than five processes have a readable CPU percent (the capacity of the
  slice is then at most 4); with the three processes of \<open>three_processes\<close> it panics. It
  returns no list of length \<open>min 5 k\<close> for \<open>k < 5\<close>.
\<close>

theorem C1_fixed_slice_of_five:
  "(snd (getCPUProcess sort_Slice (Inr processes)) = Panics SliceBoundsOutOfRange
      \<longleftrightarrow> length (filter (\<lambda>p. \<not> isl (proc_CPUPercent p)) processes) < 5)
   \<and> getCPUProcess sort_Slice (Inr three_processes) = ([], Panics SliceBoundsOutOfRange)"
  by (simp add: getCPUProcess_Inr length_appended[symmetric] three_appended)

lemma rounded_12_345:
  "fdiv (math_Round (fmul (Finite (binary64 (12345 / 1000))) (Finite 100))) (Finite 100)
     = Finite (binary64 (1235 / 100))"
proof -
  have a: "0 \<le> binary64 (12345 / 1000)" "binary64 (12345 / 1000) \<le> 100" by code_simp+
  have "binary64 (of_int (round_half_away (binary64 (binary64 (12345 / 1000) * 100))) / 100)
          = binary64 (1235 / 100)" by code_simp
  then show ?thesis using percent_round[OF a] by simp
qed

lemma rounded_99_999:
  "fdiv (math_Round (fmul (Finite (binary64 (99999 / 1000))) (Finite 100))) (Finite 100)
     = Finite 100"
proof -
  have a: "0 \<le> binary64 (99999 / 1000)" "binary64 (99999 / 1000) \<le> 100" by code_simp+
  have "binary64 (of_int (round_half_away (binary64 (binary64 (99999 / 1000) * 100))) / 100)
          = 100" by code_simp
  then show ?thesis using percent_round[OF a] by simp
qed

lemma rounded_0_001:
  "fdiv (math_Round (fmul (Finite (binary64 (1 / 1000))) (Finite 100))) (Finite 100)
     = Finite 0"
proof -
  have a: "0 \<le> binary64 (1 / 1000)" "binary64 (1 / 1000) \<le> 100" by code_simp+
  have "binary64 (of_int (round_half_away (binary64 (binary64 (1 / 1000) * 100))) / 100)
          = 0" by code_simp
  then show ?thesis using percent_round[OF a] by simp
qed

lemma rounded_0:
  "fdiv (math_Round (fmul (Finite (binary64 0)) (Finite 100))) (Finite 100) = Finite 0"
proof -
  have a: "0 \<le> binary64 0" "binary64 0 \<le> 100" by code_simp+
  have "binary64 (of_int (round_half_away (binary64 (binary64 0 * 100))) / 100)
          = 0" by code_simp
  then show ?thesis using percent_round[OF a] by simp
qed

lemma rounded_50:
  "fdiv (math_Round (fmul (Finite (binary64 50)) (Finite 100))) (Finite 100) = Finite 50"
proof -
  have a: "0 \<le> binary64 50" "binary64 50 \<le> 100" by code_simp+
  have "binary64 (of_int (round_half_away (binary64 (binary64 50 * 100))) / 100)
          = 50" by code_simp
  then show ?thesis using percent_round[OF a] by simp
qed

lemma binary64_12_35: "binary64 (1235 / 100) = 6952431924753203 / 562949953421312"
  by code_simp

lemma binary64_12_35_bounds: "0 < binary64 (1235 / 100)" "binary64 (1235 / 100) < 50"
  by code_simp+





lemma six_appended:
  "appended six_processes =
     [\<lparr>Pid = 1, Name = ''proc'', CPUPercent = Finite (binary64 (1235 / 100))\<rparr>,
      \<lparr>Pid = 3, Name = ''proc'', CPUPercent = Finite 100\<rparr>,
      \<lparr>Pid = 4, Name = ''proc'', CPUPercent = Finite 0\<rparr>,
      \<lparr>Pid = 5, Name = ''proc'', CPUPercent = Finite 0\<rparr>,
      \<lparr>Pid = 6, Name = ''proc'', CPUPercent = Finite 50\<rparr>]"
  using rounded_12_345 rounded_99_999 rounded_0_001 rounded_0 rounded_50
  by (simp add: six_processes_def process_def gone_def
      del: fmul.simps fdiv.simps math_Round.simps)

lemma six_sorted:
  "insertion_sort less_p0 (appended six_processes) =
     [\<lparr>Pid = 3, Name = ''proc'', CPUPercent = Finite 100\<rparr>,
      \<lparr>Pid = 6, Name = ''proc'', CPUPercent = Finite 50\<rparr>,
      \<lparr>Pid = 1, Name = ''proc'', CPUPercent = Finite (binary64 (1235 / 100))\<rparr>,
      \<lparr>Pid = 4, Name = ''proc'', CPUPercent = Finite 0\<rparr>,
      \<lparr>Pid = 5, Name = ''proc'', CPUPercent = Finite 0\<rparr>]"
  using binary64_12_35_bounds by (simp add: six_appended less_p0_def)

lemma six_result:
  "getCPUProcess insertion_sort (Inr six_processes) =
     ([], Returns (Some
       [\<lparr>Pid = 3, Name = ''proc'', CPUPercent = Finite 100\<rparr>,
        \<lparr>Pid = 6, Name = ''proc'', CPUPercent = Finite 50\<rparr>,
        \<lparr>Pid = 1, Name = ''proc'', CPUPercent = Finite (binary64 (1235 / 100))\<rparr>,
        \<lparr>Pid = 4, Name = ''proc'', CPUPercent = Finite 0\<rparr>,
        \<lparr>Pid = 5, Name = ''proc'', CPUPercent = Finite 0\<rparr>]))"
  unfolding getCPUProcess_Inr six_sorted by (simp add: six_appended)



section \<open>Startup and the loop\<close>

lemma emit_pair: "emit evs (tr, st) = (evs @ tr, st)"
  by (simp add: emit_def)

text \<open>
  Claim C2. With a Metrics Source that fails on every attempt (\<^verbatim>\<open>cpu.Percent\<close> returns an
  error), \<open>n\<close> iterations of the loop of each of the three programs are \<open>n\<close> sampling
  attempts, each followed by its log line and nothing else: \<^verbatim>\<open>time.Sleep\<close> is never
  called, so nothing bounds the rate of the attempts.
\<close>

theorem C2_failing_source_never_sleeps:
  "loop_cmd tenantId key (replicate n (failing s err w))
     = (concat (replicate n [CollectMetrics, Log (CollectFailed err)]), Running)
   \<and> loop_p0 sort_Slice tid cid key (replicate n (failing s err w))
     = (concat (replicate n [CollectMetrics, Log (CollectFailed err)]), Running)
   \<and> loop_p1 key (replicate n (failing s err w))
     = (concat (replicate n [CollectMetrics, Log (CollectFailed err)]), Running)"
  by (induction n)
    (simp_all add: failing_def collectMetrics_cmd_def collectMetrics_p0_def
      collectMetrics_p1_def emit_def)

text \<open>
  Claim C3. When the dial fails with a network error (no response), \<^verbatim>\<open>src/cmd/main.go\<close> and
  \<^verbatim>\<open>part_000\<close> read the header of the nil response before they look at the error: the
  process dies of a nil pointer dereference and the failure message is never printed.
  \<^verbatim>\<open>part_001\<close> checks the error first, prints the message and returns. None of them
  enters the loop or sends a sample.
\<close>

theorem C3_network_error_at_startup:
  "main_cmd \<lparr>godotenv_Load = None, env_SERVER_API_KEY = k # ks, env_CONTAINERID = cid,
             websocket_Dial = NetworkError err\<rparr> cycles
     = ([Dial ''ws://localhost:8080/api/v1/public/monitoring'' [(''X-Agent-Key'', k # ks)]],
        Crashed NilPointerDereference)
   \<and> main_p0 sort_Slice \<lparr>godotenv_Load = None, env_SERVER_API_KEY = k # ks,
             env_CONTAINERID = c # cs, websocket_Dial = NetworkError err\<rparr> cycles
     = ([Dial ''ws://localhost:8000/api/v1/public/monitoring'' [(''X-Agent-Key'', k # ks)]],
        Crashed NilPointerDereference)
   \<and> main_p1 \<lparr>godotenv_Load = None, env_SERVER_API_KEY = k # ks, env_CONTAINERID = cid,
             websocket_Dial = NetworkError err\<rparr> cycles
     = ([Dial ''ws://localhost:8080/api/v1/public/monitoring'' [(''X-Agent-Key'', k # ks)],
         Println (WebSocketFailed err)], Exited)"
  by (simp add: main_cmd_def main_p0_def main_p1_def emit_def)

section \<open>The payloads of the scenario\<close>

lemma json_string_proc: "json_string ''proc'' = ''proc''"
  by simp

lemma scenario_payload_cmd: "collectMetrics_cmd ''t1'' ''abc123'' scenario = Returns (Inr payload_cmd)"
  unfolding payload_cmd_def by (rule scenario_cmd)

lemma scenario_payload_p1: "collectMetrics_p1 ''abc123'' scenario = Returns (Inr payload_p1)"
  unfolding payload_p1_def by (rule scenario_p1)

lemma scenario_payload_p0_null:
  "collectMetrics_p0 sort_Slice ''t1'' ''c1'' ''abc123'' scenario =
     ([Log (ProcessListFailed (Error ''open /proc: permission denied''))],
      Returns (Inr (payload_p0 JNull)))"
  unfolding collectMetrics_p0_def scenario_def marshal_p0_def payload_p0_def
  by (simp add: scenario_cpu scenario_words json_float64_def json_uint64_def
      json_string_abc123 json_string_t1 json_string_c1 json_string_time Let_def
      getCPUProcess_def marshal_Processes_def
      del: json_string.simps fmul.simps fdiv.simps math_Round.simps)

lemma six_marshal:
  "marshal_Processes (Some
       [\<lparr>Pid = 3, Name = ''proc'', CPUPercent = Finite 100\<rparr>,
        \<lparr>Pid = 6, Name = ''proc'', CPUPercent = Finite 50\<rparr>,
        \<lparr>Pid = 1, Name = ''proc'', CPUPercent = Finite (binary64 (1235 / 100))\<rparr>,
        \<lparr>Pid = 4, Name = ''proc'', CPUPercent = Finite 0\<rparr>,
        \<lparr>Pid = 5, Name = ''proc'', CPUPercent = Finite 0\<rparr>]) = Inr six_json"
  by (simp add: marshal_Processes_def json_float64_def json_int32_def six_json_def
      json_string_proc del: json_string.simps)

lemma scenario_payload_p0:
  "collectMetrics_p0 insertion_sort ''t1'' ''c1'' ''abc123'' scenario_p0 =
     ([], Returns (Inr (payload_p0 six_json)))"
  unfolding collectMetrics_p0_def scenario_def scenario_p0_def marshal_p0_def payload_p0_def
  using six_result six_marshal
  by (simp add: scenario_cpu scenario_words json_float64_def json_uint64_def
      json_string_abc123 json_string_t1 json_string_c1 json_string_time Let_def
      del: json_string.simps fmul.simps fdiv.simps math_Round.simps)

text \<open>
  Claim C8. An iteration whose send fails, followed by one whose send succeeds: in
  \<^verbatim>\<open>src/cmd/main.go\<close> and \<^verbatim>\<open>part_001\<close> the failure is logged, in \<^verbatim>\<open>part_000\<close> it is not;
  in all three the next sampling attempt follows at once, with no \<^verbatim>\<open>time.Sleep\<close> between
  the failed send and it.
\<close>

theorem C8_failed_send_not_paced:
  "loop_cmd ''t1'' ''abc123''
      [\<lparr>source = scenario, conn_WriteMessage = Some err\<rparr>,
       \<lparr>source = scenario, conn_WriteMessage = None\<rparr>]
     = ([CollectMetrics, WriteMessage payload_cmd, Log (SendFailed err),
         CollectMetrics, WriteMessage payload_cmd, Log (SendDone payload_cmd), Sleep 5], Running)
   \<and> loop_p0 insertion_sort ''t1'' ''c1'' ''abc123''
      [\<lparr>source = scenario_p0, conn_WriteMessage = Some err\<rparr>,
       \<lparr>source = scenario_p0, conn_WriteMessage = None\<rparr>]
     = ([CollectMetrics, WriteMessage (payload_p0 six_json),
         CollectMetrics, WriteMessage (payload_p0 six_json),
         Log (SendDone (payload_p0 six_json)), Sleep 5], Running)
   \<and> loop_p1 ''abc123''
      [\<lparr>source = scenario, conn_WriteMessage = Some err\<rparr>,
       \<lparr>source = scenario, conn_WriteMessage = None\<rparr>]
     = ([CollectMetrics, WriteMessage payload_p1, Log (SendFailed err),
         CollectMetrics, WriteMessage payload_p1, Log (SendDone payload_p1), Sleep 5], Running)"
  by (simp add: scenario_payload_cmd scenario_payload_p0 scenario_payload_p1 emit_def)







text \<open>
  Claim C10. In \<^verbatim>\<open>part_000\<close>, when \<^verbatim>\<open>process.Processes()\<close> fails, \<^verbatim>\<open>getCPUProcess\<close> logs
  the failure and returns the nil slice, not an error; when the CPU, memory and disk
  readings succeed (the rounded CPU percent being finite), \<^verbatim>\<open>collectMetrics\<close> returns the
  payload with \<^verbatim>\<open>processList\<close> null, and the loop sends that payload: the iteration is
  not handled as a sampling failure.
\<close>

theorem C10_enumeration_failure_is_not_a_sampling_failure:
  assumes "process_Processes s = Inl err"
    and "cpu_Percent s = Inr (c0 # rest)"
    and "fdiv (math_Round (fmul c0 (Finite 10))) (Finite 10) = Finite r"
    and "mem_VirtualMemory s = Inr memStats" and "disk_Usage s = Inr diskStats"
    and "payload = JObject
          [(''tid'', JString (json_string tid)),
           (''cid'', JString (json_string cid)),
           (''key'', JString (json_string key)),
           (''timestamp'', JString (json_string (time_Now s))),
           (''cpuUsagePercent'', JNumber r),
           (''memoryUsedMb'', json_uint64 (mem_Used memStats div 1024 div 1024)),
           (''memoryTotalMb'', json_uint64 (mem_Total memStats div 1024 div 1024)),
           (''diskUsedGb'', json_uint64 (disk_Used diskStats div 1024 div 1024 div 1024)),
           (''diskTotalGb'', json_uint64 (disk_Total diskStats div 1024 div 1024 div 1024)),
           (''processList'', JNull)]"
  shows "getCPUProcess sort_Slice (process_Processes s)
           = ([Log (ProcessListFailed err)], Returns None)
       \<and> collectMetrics_p0 sort_Slice tid cid key s
           = ([Log (ProcessListFailed err)], Returns (Inr payload))
       \<and> loop_p0 sort_Slice tid cid key (\<lparr>source = s, conn_WriteMessage = w\<rparr> # cs)
           = emit ([CollectMetrics, Log (ProcessListFailed err), WriteMessage payload]
                   @ (case w of Some e \<Rightarrow> [] | None \<Rightarrow> [Log (SendDone payload), Sleep 5]))
               (loop_p0 sort_Slice tid cid key cs)"
proof -
  have g: "getCPUProcess sort_Slice (process_Processes s)
             = ([Log (ProcessListFailed err)], Returns None)"
    using assms(1) by (simp add: getCPUProcess_def)
  have c: "collectMetrics_p0 sort_Slice tid cid key s
             = ([Log (ProcessListFailed err)], Returns (Inr payload))"
    using assms(2-6) g
    by (simp add: collectMetrics_p0_def marshal_p0_def marshal_Processes_def json_float64_def
        Let_def del: json_string.simps fmul.simps fdiv.simps math_Round.simps)
  have "loop_p0 sort_Slice tid cid key (\<lparr>source = s, conn_WriteMessage = w\<rparr> # cs)
           = emit ([CollectMetrics, Log (ProcessListFailed err), WriteMessage payload]
                   @ (case w of Some e \<Rightarrow> [] | None \<Rightarrow> [Log (SendDone payload), Sleep 5]))
               (loop_p0 sort_Slice tid cid key cs)"
    using c by (cases w) simp_all
  then show ?thesis using g c by blast
qed


theorem C10_enumeration_failure_witness:
  "getCPUProcess insertion_sort (process_Processes scenario)
     = ([Log (ProcessListFailed (Error ''open /proc: permission denied''))], Returns None)
   \<and> collectMetrics_p0 insertion_sort ''t1'' ''c1'' ''abc123'' scenario
     = ([Log (ProcessListFailed (Error ''open /proc: permission denied''))],
        Returns (Inr (payload_p0 JNull)))
   \<and> loop_p0 insertion_sort ''t1'' ''c1'' ''abc123''
        [\<lparr>source = scenario, conn_WriteMessage = None\<rparr>]
     = ([CollectMetrics, Log (ProcessListFailed (Error ''open /proc: permission denied'')),
         WriteMessage (payload_p0 JNull), Log (SendDone (payload_p0 JNull)), Sleep 5], Running)"
proof -
  have p: "process_Processes scenario = Inl (Error ''open /proc: permission denied'')"
    and c: "cpu_Percent scenario = Inr [Finite (binary64 (4237 / 100))]"
    and m: "mem_VirtualMemory scenario
             = Inr \<lparr>mem_Total = 8192 * 1024 * 1024, mem_Used = 2048 * 1024 * 1024\<rparr>"
    and d: "disk_Usage scenario
             = Inr \<lparr>disk_Total = 500 * 1024 * 1024 * 1024, disk_Used = 50 * 1024 * 1024 * 1024\<rparr>"
    by (simp_all add: scenario_def)
  have j: "payload_p0 JNull = JObject
          [(''tid'', JString (json_string ''t1'')),
           (''cid'', JString (json_string ''c1'')),
           (''key'', JString (json_string ''abc123'')),
           (''timestamp'', JString (json_string (time_Now scenario))),
           (''cpuUsagePercent'', JNumber (binary64 (424 / 10))),
           (''memoryUsedMb'', json_uint64 (mem_Used \<lparr>mem_Total = 8192 * 1024 * 1024, mem_Used = 2048 * 1024 * 1024\<rparr> div 1024 div 1024)),
           (''memoryTotalMb'', json_uint64 (mem_Total \<lparr>mem_Total = 8192 * 1024 * 1024, mem_Used = 2048 * 1024 * 1024\<rparr> div 1024 div 1024)),
           (''diskUsedGb'', json_uint64 (disk_Used \<lparr>disk_Total = 500 * 1024 * 1024 * 1024, disk_Used = 50 * 1024 * 1024 * 1024\<rparr> div 1024 div 1024 div 1024)),
           (''diskTotalGb'', json_uint64 (disk_Total \<lparr>disk_Total = 500 * 1024 * 1024 * 1024, disk_Used = 50 * 1024 * 1024 * 1024\<rparr> div 1024 div 1024 div 1024)),
           (''processList'', JNull)]"
    by (simp add: payload_p0_def scenario_def json_uint64_def json_string_abc123 json_string_t1
        json_string_c1 json_string_time del: json_string.simps)
  from C10_enumeration_failure_is_not_a_sampling_failure[OF p c scenario_cpu m d j,
      of insertion_sort None "[]"]
  show ?thesis by (simp add: emit_def)
qed

section \<open>Serializing and reading back\<close>

lemma json_string_valid: "valid_utf8 s \<Longrightarrow> json_string s = s"
proof (induction s rule: json_string.induct)
  case 1
  then show ?case by simp
next
  case (2 c cs)
  let ?n = "rune_len (c # cs)"
  have n: "?n \<noteq> 0" and v: "valid_utf8 (drop (?n - 1) cs)"
    using "2.prems" by (simp_all add: Let_def)
  have "json_string (drop (?n - 1) cs) = drop (?n - 1) cs"
    using "2.IH"(2)[OF refl n v] .
  then show ?case using n by (simp add: Let_def del: rune_len.simps)
qed

lemma to_float64_finite: "finite_float64 (Finite q) \<Longrightarrow> to_float64 q = Finite q"
  by (auto simp: finite_float64_def to_float64_def Let_def)

lemma get_float64_json:
  assumes "finite_float64 x"
  obtains q where "x = Finite q" "json_float64 x = Inr (JNumber q)"
    "\<And>kvs k. map_of kvs k = Some (JNumber q) \<Longrightarrow> get_float64 (JObject kvs) k = Some x"
proof (cases x)
  case (Finite q)
  have "to_float64 q = Finite q" using assms Finite by (simp add: to_float64_finite)
  then show ?thesis using that[of q] Finite by (simp add: json_float64_def get_float64_def)
qed (use assms in \<open>simp_all add: finite_float64_def\<close>)

lemma get_uint64_json:
  assumes "map_of kvs k = Some (json_uint64 w)"
  shows "get_uint64 (JObject kvs) k = Some w"
proof -
  have "unat w < 2 ^ 64" using unsigned_less[of w] by simp
  then have "rat_of_nat (unat w) < of_nat (2 ^ 64)" by (simp only: of_nat_less_iff)
  then have "rat_of_nat (unat w) < 2 ^ 64" by simp
  moreover have "\<lfloor>rat_of_nat (unat w)\<rfloor> = int (unat w)" by (simp del: of_nat_unat)
  moreover have "word_of_int (int (unat w)) = w" by simp
  ultimately show ?thesis
    using assms by (simp add: get_uint64_def json_uint64_def del: of_nat_unat)
qed

lemma get_int32_json:
  assumes "map_of kvs k = Some (json_int32 w)"
  shows "get_int32 (JObject kvs) k = Some w"
proof -
  have "- (2 ^ 31) \<le> sint w" "sint w < 2 ^ 31"
    using sint_ge[of w] sint_lt[of w] by simp_all
  then have "rat_of_int (- (2 ^ 31)) \<le> of_int (sint w)" "rat_of_int (sint w) < of_int (2 ^ 31)"
    by (simp_all only: of_int_le_iff of_int_less_iff)
  then have "- (2 ^ 31) \<le> rat_of_int (sint w)" "rat_of_int (sint w) < 2 ^ 31"
    by (simp_all del: of_int_sint)
  moreover have "\<lfloor>rat_of_int (sint w)\<rfloor> = sint w" by (simp del: of_int_sint)
  moreover have "word_of_int (sint w) = w" by simp
  ultimately show ?thesis
    using assms by (simp add: get_int32_def json_int32_def del: of_int_sint)
qed

lemma get_string_json:
  "map_of kvs k = Some (JString (json_string s)) \<Longrightarrow> valid_utf8 s \<Longrightarrow>
   get_string (JObject kvs) k = Some s"
  by (simp add: get_string_def json_string_valid)


lemma marshal_ProcessInfo_roundtrip:
  assumes "valid_ProcessInfo p"
  obtains j where "marshal_ProcessInfo p = Inr j" "unmarshal_ProcessInfo j = Some p"
proof -
  obtain q where q: "CPUPercent p = Finite q" "json_float64 (CPUPercent p) = Inr (JNumber q)"
    and g: "\<And>kvs k. map_of kvs k = Some (JNumber q) \<Longrightarrow>
              get_float64 (JObject kvs) k = Some (CPUPercent p)"
    using assms get_float64_json[of "CPUPercent p"] unfolding valid_ProcessInfo_def by metis
  let ?j = "JObject [(''pid'', json_int32 (Pid p)), (''name'', JString (json_string (Name p))),
                     (''cpuPercent'', JNumber q)]"
  have m: "marshal_ProcessInfo p = Inr ?j" using q(2) by simp
  have "get_int32 ?j ''pid'' = Some (Pid p)" by (rule get_int32_json) simp
  moreover have "get_string ?j ''name'' = Some (Name p)"
    using assms by (intro get_string_json) (simp_all add: valid_ProcessInfo_def)
  moreover have "get_float64 ?j ''cpuPercent'' = Some (CPUPercent p)" by (rule g) simp
  ultimately have "unmarshal_ProcessInfo ?j = Some p" by (simp add: unmarshal_ProcessInfo_def)
  then show ?thesis using m that by blast
qed

lemma marshal_list_roundtrip:
  assumes "list_all valid_ProcessInfo ps"
  obtains js where "marshal_list ps = Inr js" "unmarshal_list js = Some ps"
proof -
  have "\<exists>js. marshal_list ps = Inr js \<and> unmarshal_list js = Some ps" using assms
  proof (induction ps)
    case Nil
    then show ?case by simp
  next
    case (Cons p ps)
    obtain j where j: "marshal_ProcessInfo p = Inr j" "unmarshal_ProcessInfo j = Some p"
      using Cons.prems marshal_ProcessInfo_roundtrip[of p] by auto
    obtain js where js: "marshal_list ps = Inr js" "unmarshal_list js = Some ps"
      using Cons by auto
    have "marshal_list (p # ps) = Inr (j # js)" "unmarshal_list (j # js) = Some (p # ps)"
      using j js by (simp_all del: marshal_ProcessInfo.simps)
    then show ?case by blast
  qed
  then show ?thesis using that by blast
qed

lemma marshal_Processes_roundtrip:
  assumes "case ps of None \<Rightarrow> True | Some xs \<Rightarrow> list_all valid_ProcessInfo xs"
  obtains j where "marshal_Processes ps = Inr j"
    "\<And>kvs k. map_of kvs k = Some j \<Longrightarrow> get_Processes (JObject kvs) k = Some ps"
proof (cases ps)
  case None
  then show ?thesis using that[of JNull] by (simp add: marshal_Processes_def get_Processes_def)
next
  case (Some xs)
  then obtain js where js: "marshal_list xs = Inr js" "unmarshal_list js = Some xs"
    using assms marshal_list_roundtrip[of xs] by auto
  then show ?thesis using that[of "JArray js"] Some
    by (simp add: marshal_Processes_def get_Processes_def)
qed

lemma marshal_round_trip:
  assumes "valid_cmd m" and "valid_p0 m0"
  shows "(\<exists>p. marshal_cmd m = Inr p \<and> unmarshal_cmd p = Some m)
       \<and> (\<exists>p. marshal_p0 m0 = Inr p \<and> unmarshal_p0 p = Some m0)"
proof -
  obtain q where q: "json_float64 (CPUUsage_cmd m) = Inr (JNumber q)"
    and g: "\<And>kvs k. map_of kvs k = Some (JNumber q) \<Longrightarrow>
              get_float64 (JObject kvs) k = Some (CPUUsage_cmd m)"
    using assms(1) get_float64_json[of "CPUUsage_cmd m"] unfolding valid_cmd_def by metis
  let ?p = "JObject
              [(''tenantId'', JString (json_string (TenantId_cmd m))),
               (''key'', JString (json_string (Key_cmd m))),
               (''timestamp'', JString (json_string (Timestamp_cmd m))),
               (''cpuUsagePercent'', JNumber q),
               (''memoryUsedMb'', json_uint64 (MemoryUsed_cmd m)),
               (''memoryTotalMb'', json_uint64 (MemoryTotal_cmd m)),
               (''diskUsedGb'', json_uint64 (DiskUsed_cmd m)),
               (''diskTotalGb'', json_uint64 (DiskTotal_cmd m))]"
  have m: "marshal_cmd m = Inr ?p" using q by (simp add: marshal_cmd_def)
  have "get_string ?p ''tenantId'' = Some (TenantId_cmd m)"
    "get_string ?p ''key'' = Some (Key_cmd m)"
    "get_string ?p ''timestamp'' = Some (Timestamp_cmd m)"
    using assms(1) by (auto simp: valid_cmd_def intro!: get_string_json)
  moreover have "get_float64 ?p ''cpuUsagePercent'' = Some (CPUUsage_cmd m)" by (rule g) simp
  moreover have "get_uint64 ?p ''memoryUsedMb'' = Some (MemoryUsed_cmd m)"
    "get_uint64 ?p ''memoryTotalMb'' = Some (MemoryTotal_cmd m)"
    "get_uint64 ?p ''diskUsedGb'' = Some (DiskUsed_cmd m)"
    "get_uint64 ?p ''diskTotalGb'' = Some (DiskTotal_cmd m)"
    by (rule get_uint64_json, simp)+
  ultimately have "unmarshal_cmd ?p = Some m" by (simp add: unmarshal_cmd_def)
  then have A: "\<exists>p. marshal_cmd m = Inr p \<and> unmarshal_cmd p = Some m" using m by blast
  obtain q0 where q0: "json_float64 (CPUUsage_p0 m0) = Inr (JNumber q0)"
    and g0: "\<And>kvs k. map_of kvs k = Some (JNumber q0) \<Longrightarrow>
              get_float64 (JObject kvs) k = Some (CPUUsage_p0 m0)"
    using assms(2) get_float64_json[of "CPUUsage_p0 m0"] unfolding valid_p0_def by metis
  obtain ps where ps: "marshal_Processes (Processes_p0 m0) = Inr ps"
    and gp: "\<And>kvs k. map_of kvs k = Some ps \<Longrightarrow>
               get_Processes (JObject kvs) k = Some (Processes_p0 m0)"
    using assms(2) marshal_Processes_roundtrip[of "Processes_p0 m0"] unfolding valid_p0_def
    by metis
  let ?p0 = "JObject
              [(''tid'', JString (json_string (TID_p0 m0))),
               (''cid'', JString (json_string (CID_p0 m0))),
               (''key'', JString (json_string (Key_p0 m0))),
               (''timestamp'', JString (json_string (Timestamp_p0 m0))),
               (''cpuUsagePercent'', JNumber q0),
               (''memoryUsedMb'', json_uint64 (MemoryUsed_p0 m0)),
               (''memoryTotalMb'', json_uint64 (MemoryTotal_p0 m0)),
               (''diskUsedGb'', json_uint64 (DiskUsed_p0 m0)),
               (''diskTotalGb'', json_uint64 (DiskTotal_p0 m0)),
               (''processList'', ps)]"
  have m0: "marshal_p0 m0 = Inr ?p0" using q0 ps by (simp add: marshal_p0_def)
  have "get_string ?p0 ''tid'' = Some (TID_p0 m0)"
    "get_string ?p0 ''cid'' = Some (CID_p0 m0)"
    "get_string ?p0 ''key'' = Some (Key_p0 m0)"
    "get_string ?p0 ''timestamp'' = Some (Timestamp_p0 m0)"
    using assms(2) by (auto simp: valid_p0_def intro!: get_string_json)
  moreover have "get_float64 ?p0 ''cpuUsagePercent'' = Some (CPUUsage_p0 m0)" by (rule g0) simp
  moreover have "get_uint64 ?p0 ''memoryUsedMb'' = Some (MemoryUsed_p0 m0)"
    "get_uint64 ?p0 ''memoryTotalMb'' = Some (MemoryTotal_p0 m0)"
    "get_uint64 ?p0 ''diskUsedGb'' = Some (DiskUsed_p0 m0)"
    "get_uint64 ?p0 ''diskTotalGb'' = Some (DiskTotal_p0 m0)"
    by (rule get_uint64_json, simp)+
  moreover have "get_Processes ?p0 ''processList'' = Some (Processes_p0 m0)" by (rule gp) simp
  ultimately have "unmarshal_p0 ?p0 = Some m0" by (simp add: unmarshal_p0_def)
  then have "\<exists>p. marshal_p0 m0 = Inr p \<and> unmarshal_p0 p = Some m0" using m0 by blast
  then show ?thesis using A by blast
qed


text \<open>
  Claim C9, as amended. For every sample of \<^verbatim>\<open>src/cmd/main.go\<close> and of \<^verbatim>\<open>part_000\<close> whose
  strings are valid UTF-8 and whose CPU percents (its own and those of its process list)
  are finite \<^verbatim>\<open>float64\<close> values, \<^verbatim>\<open>json.Marshal\<close> returns a payload, and reading the payload
  back gives the same sample, field for field.
\<close>

theorem C9_round_trip:
  assumes "valid_cmd m" and "valid_p0 m0"
  shows "round_trip_cmd m = Some m \<and> round_trip_p0 m0 = Some m0"
  using marshal_round_trip[OF assms] by (auto simp: round_trip_cmd_def round_trip_p0_def)

lemma finite_42_4: "finite_float64 (Finite (binary64 (424 / 10)))"
proof -
  have "binary64 (binary64 (424 / 10)) = binary64 (424 / 10)" by code_simp
  moreover have "\<bar>binary64 (424 / 10)\<bar> \<le> 2 ^ 53" by code_simp
  ultimately show ?thesis using max_float64_ge53 by (simp add: finite_float64_def)
qed

lemma finite_100: "finite_float64 (Finite 100)"
proof -
  have "binary64 100 = 100" by code_simp
  moreover have "\<bar>100 :: rat\<bar> \<le> 2 ^ 53" by simp
  ultimately show ?thesis using max_float64_ge53 by (simp add: finite_float64_def)
qed

lemma valid_utf8_strings:
  "valid_utf8 ''t1''" "valid_utf8 ''c1''" "valid_utf8 ''abc123''" "valid_utf8 ''proc''"
  "valid_utf8 ''2024-01-01T00:00:00+09:00''" "valid_utf8 replacement_char"
  by (simp_all add: replacement_char_def cont_def)

lemma valid_sample_cmd: "valid_cmd sample_cmd"
  using finite_42_4 valid_utf8_strings
  by (simp add: valid_cmd_def sample_cmd_def del: valid_utf8.simps)

lemma valid_sample_p0: "valid_p0 sample_p0"
  using finite_42_4 finite_100 valid_utf8_strings
  by (simp add: valid_p0_def sample_p0_def valid_ProcessInfo_def del: valid_utf8.simps)

theorem C9_round_trip_witness:
  "round_trip_cmd sample_cmd = Some sample_cmd \<and> round_trip_p0 sample_p0 = Some sample_p0"
  using C9_round_trip[OF valid_sample_cmd valid_sample_p0] .

lemma json_string_bad: "json_string [CHR 0xFF] = replacement_char"
  by simp

lemma json_string_replacement: "json_string replacement_char = replacement_char"
  using valid_utf8_strings(6) by (rule json_string_valid)

theorem C9_not_every_sample_counterexample:
  "round_trip_cmd (sample_cmd\<lparr>CPUUsage_cmd := NaN\<rparr>) = None
   \<and> round_trip_cmd (sample_cmd\<lparr>Key_cmd := [CHR 0xFF]\<rparr>)
       = Some (sample_cmd\<lparr>Key_cmd := replacement_char\<rparr>)
   \<and> sample_cmd\<lparr>Key_cmd := replacement_char\<rparr> \<noteq> sample_cmd\<lparr>Key_cmd := [CHR 0xFF]\<rparr>"
proof -
  have a: "round_trip_cmd (sample_cmd\<lparr>CPUUsage_cmd := NaN\<rparr>) = None"
    by (simp add: round_trip_cmd_def marshal_cmd_def json_float64_def)
  have "valid_cmd (sample_cmd\<lparr>Key_cmd := replacement_char\<rparr>)"
    using valid_sample_cmd valid_utf8_strings(6) by (simp add: valid_cmd_def)
  then obtain p where p: "marshal_cmd (sample_cmd\<lparr>Key_cmd := replacement_char\<rparr>) = Inr p"
    "unmarshal_cmd p = Some (sample_cmd\<lparr>Key_cmd := replacement_char\<rparr>)"
    using marshal_round_trip[OF _ valid_sample_p0] by blast
  have "marshal_cmd (sample_cmd\<lparr>Key_cmd := [CHR 0xFF]\<rparr>)
          = marshal_cmd (sample_cmd\<lparr>Key_cmd := replacement_char\<rparr>)"
    unfolding marshal_cmd_def using json_string_bad json_string_replacement
    by (simp del: json_string.simps split: sum.splits)
  then have b: "round_trip_cmd (sample_cmd\<lparr>Key_cmd := [CHR 0xFF]\<rparr>)
       = Some (sample_cmd\<lparr>Key_cmd := replacement_char\<rparr>)"
    using p by (simp add: round_trip_cmd_def)
  have "Key_cmd (sample_cmd\<lparr>Key_cmd := replacement_char\<rparr>)
          \<noteq> Key_cmd (sample_cmd\<lparr>Key_cmd := [CHR 0xFF]\<rparr>)"
    by (simp add: replacement_char_def)
  then have c: "sample_cmd\<lparr>Key_cmd := replacement_char\<rparr> \<noteq> sample_cmd\<lparr>Key_cmd := [CHR 0xFF]\<rparr>"
    by metis
  show ?thesis using a b c by blast
qed

end
